theory Spec2Isabelle
  imports Main "HOL-Library.Sublist"
begin

section \<open>JavaScript strings and the regular expressions of the validator\<close>

text \<open>
  Strings are lists of characters; a character stands for a code unit below 256.  The
  regular expressions of
  \<^verbatim>\<open>MCPValidator.checkProtocol\<close> are written out as matchers: a matcher is tried at
  the head of the remaining text and returns the captured group and the text after the
  match.
\<close>

definition sq :: char where
  "sq = CHR 0x27"

definition dq :: char where
  "dq = CHR 0x22"

definition nl :: char where
  "nl = CHR 0x0A"

text \<open>\<^verbatim>\<open>\s\<close> on the characters below 256: tab, line feed, vertical tab, form feed,
  carriage return, space, no-break space.\<close>

definition is_space :: "char \<Rightarrow> bool" where
  "is_space c = (c \<in> set [CHR 0x09, CHR 0x0A, CHR 0x0B, CHR 0x0C, CHR 0x0D, CHR 0x20, CHR 0xA0])"

text \<open>The class \<^verbatim>\<open>['"]\<close>.\<close>

definition is_quote :: "char \<Rightarrow> bool" where
  "is_quote c = (c = sq \<or> c = dq)"

text \<open>\<^verbatim>\<open>String.prototype.includes\<close>.\<close>

fun str_includes :: "string \<Rightarrow> string \<Rightarrow> bool" where
  "str_includes [] needle = (needle = [])"
| "str_includes (c # cs) needle = (prefix needle (c # cs) \<or> str_includes cs needle)"

text \<open>A literal at the head of the text.\<close>

definition lit :: "string \<Rightarrow> string \<Rightarrow> string option" where
  "lit p s = (if prefix p s then Some (drop (length p) s) else None)"

text \<open>\<^verbatim>\<open>\s*\<close> (greedy; nothing that follows it in these expressions is a space).\<close>

definition skip_ws :: "string \<Rightarrow> string" where
  "skip_ws s = dropWhile is_space s"

text \<open>\<^verbatim>\<open>['"]([^'"]+)['"]\<close>: a quote, the longest run of non-quotes (at least one), a quote.\<close>

definition quoted :: "string \<Rightarrow> (string \<times> string) option" where
  "quoted s =
     (case s of
        [] \<Rightarrow> None
      | q # r \<Rightarrow>
          if is_quote q then
            (let n = takeWhile (\<lambda>c. \<not> is_quote c) r;
                 r' = dropWhile (\<lambda>c. \<not> is_quote c) r
             in if n \<noteq> [] \<and> r' \<noteq> [] then Some (n, tl r') else None)
          else None)"

text \<open>
  A regular expression with the \<^verbatim>\<open>g\<close> flag in an \<^verbatim>\<open>exec\<close> loop: the matcher is tried at
  each position from \<^verbatim>\<open>lastIndex\<close> on; after a match the search resumes where the match
  ended.  The first argument counts the characters still covered by the last match.
\<close>

fun exec_all :: "(string \<Rightarrow> ('a \<times> string) option) \<Rightarrow> nat \<Rightarrow> string \<Rightarrow> 'a list" where
  "exec_all m k [] = []"
| "exec_all m (Suc k) (c # cs) = exec_all m k cs"
| "exec_all m 0 (c # cs) =
     (case m (c # cs) of
        Some (cap, rest) \<Rightarrow> cap # exec_all m (length cs - length rest) cs
      | None \<Rightarrow> exec_all m 0 cs)"

text \<open>\<^verbatim>\<open>String.prototype.match\<close> without the \<^verbatim>\<open>g\<close> flag: the leftmost match.\<close>

fun first_match :: "(string \<Rightarrow> 'a option) \<Rightarrow> string \<Rightarrow> 'a option" where
  "first_match m [] = m []"
| "first_match m (c # cs) = (case m (c # cs) of Some x \<Rightarrow> Some x | None \<Rightarrow> first_match m cs)"

text \<open>The lazy \<^verbatim>\<open>[\s\S]*?\<close> before a condition on what follows: the shortest prefix after
  which the condition holds, with the text left.\<close>

fun lazy_until :: "(string \<Rightarrow> bool) \<Rightarrow> string \<Rightarrow> (string \<times> string) option" where
  "lazy_until P [] = (if P [] then Some ([], []) else None)"
| "lazy_until P (c # cs) =
     (if P (c # cs) then Some ([], c # cs)
      else map_option (\<lambda>(p, r). (c # p, r)) (lazy_until P cs))"

text \<open>A \<^verbatim>\<open>Set\<close> keeps its members in insertion order, each once.\<close>

definition set_add :: "'a list \<Rightarrow> 'a \<Rightarrow> 'a list" where
  "set_add xs x = (if x \<in> set xs then xs else xs @ [x])"

definition set_add_all :: "'a list \<Rightarrow> 'a list \<Rightarrow> 'a list" where
  "set_add_all xs ys = foldl set_add xs ys"

section \<open>The compliance checker: \<^verbatim>\<open>MCPValidator.checkProtocol\<close>\<close>

record protocol_result =
  compliant :: bool
  issues :: "string list"

text \<open>\<^verbatim>\<open>/tools:\s*\[([\s\S]*?)\]/\<close>\<close>

definition re_list_tools :: "string \<Rightarrow> string option" where
  "re_list_tools s =
     (case lit ''tools:'' s of
        None \<Rightarrow> None
      | Some r \<Rightarrow>
          (case skip_ws r of
             [] \<Rightarrow> None
           | b # r' \<Rightarrow>
               if b = CHR ''['' then
                 map_option fst (lazy_until (\<lambda>t. prefix '']'' t) r')
               else None))"

text \<open>\<^verbatim>\<open>/name:\s*['"]([^'"]+)['"]/g\<close>\<close>

definition re_tool_name :: "string \<Rightarrow> (string \<times> string) option" where
  "re_tool_name s = (case lit ''name:'' s of None \<Rightarrow> None | Some r \<Rightarrow> quoted (skip_ws r))"

text \<open>\<^verbatim>\<open>/case\s*['"]([^'"]+)['"]\s*:/g\<close>\<close>

definition re_switch_case :: "string \<Rightarrow> (string \<times> string) option" where
  "re_switch_case s =
     (case lit ''case'' s of
        None \<Rightarrow> None
      | Some r \<Rightarrow>
          (case quoted (skip_ws r) of
             None \<Rightarrow> None
           | Some (n, r') \<Rightarrow> map_option (\<lambda>r''. (n, r'')) (lit '':'' (skip_ws r'))))"

text \<open>\<^verbatim>\<open>/request\.params\.name\s*===?\s*['"]([^'"]+)['"]/g\<close>\<close>

definition re_if_tool :: "string \<Rightarrow> (string \<times> string) option" where
  "re_if_tool s =
     (case lit ''request.params.name'' s of
        None \<Rightarrow> None
      | Some r \<Rightarrow>
          (case lit ''=='' (skip_ws r) of
             None \<Rightarrow> None
           | Some r' \<Rightarrow>
               quoted (skip_ws (case lit ''='' r' of Some r'' \<Rightarrow> r'' | None \<Rightarrow> r'))))"

text \<open>The lookahead \<^verbatim>\<open>(?=\},?\s*\n)\<close>: a closing brace, an optional comma, and a run of
  spaces that holds a line feed.\<close>

definition closes_schema :: "string \<Rightarrow> bool" where
  "closes_schema s =
     (case lit ''}'' s of
        None \<Rightarrow> False
      | Some r \<Rightarrow>
          nl \<in> set (takeWhile is_space (case lit '','' r of Some r' \<Rightarrow> r' | None \<Rightarrow> r)))"

text \<open>\<^verbatim>\<open>/inputSchema:\s*\{([\s\S]*?)(?=\},?\s*\n)/g\<close>\<close>

definition re_input_schema :: "string \<Rightarrow> (string \<times> string) option" where
  "re_input_schema s =
     (case lit ''inputSchema:'' s of
        None \<Rightarrow> None
      | Some r \<Rightarrow>
          (case lit ''{'' (skip_ws r) of
             None \<Rightarrow> None
           | Some r' \<Rightarrow> lazy_until closes_schema r'))"

text \<open>The declared interface set: the names in the first bracketed block after
  \<^verbatim>\<open>tools:\<close>.\<close>

definition definedTools :: "string \<Rightarrow> string list" where
  "definedTools content =
     (case first_match re_list_tools content of
        None \<Rightarrow> []
      | Some block \<Rightarrow> set_add_all [] (exec_all re_tool_name 0 block))"

text \<open>The handled interface set: the quoted case labels, then the names compared with
  \<^verbatim>\<open>request.params.name\<close>, over the whole document.\<close>

definition handledTools :: "string \<Rightarrow> string list" where
  "handledTools content =
     set_add_all (set_add_all [] (exec_all re_switch_case 0 content))
       (exec_all re_if_tool 0 content)"

definition missing_handler_issue :: "string \<Rightarrow> string" where
  "missing_handler_issue tool = ''Missing tool handler for '' @ [sq] @ tool @ [sq]"

definition undeclared_issue :: "string \<Rightarrow> string" where
  "undeclared_issue tool = ''Handler for undeclared tool '' @ [sq] @ tool @ [sq]"

definition schema_issue :: string where
  "schema_issue = ''inputSchema missing '' @ [dq] @ ''type'' @ [dq] @ '' property''"

definition schema_issues :: "string \<Rightarrow> string list" where
  "schema_issues content =
     map (\<lambda>schema. schema_issue)
       (filter (\<lambda>schema. \<not> str_includes schema ''type:'' \<and> \<not> str_includes schema ([dq] @ ''type'' @ [dq]))
          (exec_all re_input_schema 0 content))"

text \<open>
  \<^verbatim>\<open>checkProtocol\<close> on the text of \<^verbatim>\<open>src/index.ts\<close>; \<open>None\<close> when the file does not
  exist.  The issues are pushed in the order of the source.
\<close>

definition checkProtocol :: "string option \<Rightarrow> protocol_result" where
  "checkProtocol file =
     (case file of
        None \<Rightarrow> \<lparr>compliant = False, issues = [''Missing src/index.ts'']\<rparr>
      | Some content \<Rightarrow>
          (let has_list = str_includes content ''ListToolsRequestSchema'';
               has_call = str_includes content ''CallToolRequestSchema'';
               defined = definedTools content;
               handled = handledTools content;
               missing = filter (\<lambda>tool. tool \<notin> set handled) defined;
               undeclared = filter (\<lambda>tool. tool \<notin> set defined \<and> tool \<noteq> ''default'') handled;
               connected = (str_includes content ''server.connect'' \<or> str_includes content ''.run('')
           in \<lparr>compliant = (has_list \<and> has_call \<and> missing = [] \<and> connected),
               issues =
                 (if has_list then [] else [''Missing ListToolsRequestSchema handler'']) @
                 (if has_call then [] else [''Missing CallToolRequestSchema handler'']) @
                 map missing_handler_issue missing @
                 map undeclared_issue undeclared @
                 schema_issues content @
                 (if connected then [] else [''Missing server connection/run call''])\<rparr>))"

subsection \<open>Two server documents\<close>

definition js_lines :: "string list \<Rightarrow> string" where
  "js_lines ls = concat (map (\<lambda>l. l @ [nl]) ls)"

text \<open>A server index that lists the tool \<^verbatim>\<open>get_forecast\<close> and has no case label for it.\<close>

definition scenario_C_document :: string where
  "scenario_C_document = js_lines
     [''server.setRequestHandler(ListToolsRequestSchema, async () => ({'',
      ''  tools: ['',
      ''    { name: '' @ [sq] @ ''get_forecast'' @ [sq] @ '', description: '' @ [sq] @ ''Forecast'' @ [sq] @ '', inputSchema: { type: '' @ [sq] @ ''object'' @ [sq] @ '' } }'',
      ''  ]'',
      ''}));'',
      ''server.setRequestHandler(CallToolRequestSchema, async (request) => {'',
      ''  switch (request.params.name) {'',
      ''    default:'',
      ''      throw new Error('' @ [sq] @ ''Unknown tool'' @ [sq] @ '');'',
      ''  }'',
      ''});'',
      ''await server.connect(transport);'']"

text \<open>The same index with a case label for the listed tool and one for
  \<^verbatim>\<open>legacy_tool\<close>, which is not listed.\<close>

definition scenario_D_document :: string where
  "scenario_D_document = js_lines
     [''server.setRequestHandler(ListToolsRequestSchema, async () => ({'',
      ''  tools: ['',
      ''    { name: '' @ [sq] @ ''get_forecast'' @ [sq] @ '', description: '' @ [sq] @ ''Forecast'' @ [sq] @ '', inputSchema: { type: '' @ [sq] @ ''object'' @ [sq] @ '' } }'',
      ''  ]'',
      ''}));'',
      ''server.setRequestHandler(CallToolRequestSchema, async (request) => {'',
      ''  switch (request.params.name) {'',
      ''    case '' @ [sq] @ ''get_forecast'' @ [sq] @ '':'',
      ''      return get_forecastTool(client, args);'',
      ''    case '' @ [sq] @ ''legacy_tool'' @ [sq] @ '':'',
      ''      return legacyTool(client, args);'',
      ''    default:'',
      ''      throw new Error('' @ [sq] @ ''Unknown tool'' @ [sq] @ '');'',
      ''  }'',
      ''});'',
      ''await server.connect(transport);'']"

text \<open>
  The part of a server index that \<^verbatim>\<open>MCPGenerator.genServerIndex\<close> writes for two tools
  without parameters, \<^verbatim>\<open>get_forecast\<close> and \<^verbatim>\<open>get_alerts\<close>, in its layout (every entry of the
  listing ends with \<^verbatim>\<open>required: []\<close>), with the case label of \<^verbatim>\<open>get_alerts\<close> left out.
\<close>

definition two_tools_document :: string where
  "two_tools_document = js_lines
     [''server.setRequestHandler(ListToolsRequestSchema, async () => ({'',
      ''  tools: ['',
      ''    {'',
      ''      name: '' @ [sq] @ ''get_forecast'' @ [sq] @ '','',
      ''      description: '' @ [sq] @ ''Forecast for a city'' @ [sq] @ '','',
      ''      inputSchema: {'',
      ''        type: '' @ [sq] @ ''object'' @ [sq] @ '','',
      ''        properties: {'',
      ''        },'',
      ''        required: []'',
      ''      }'',
      ''    },'',
      ''    {'',
      ''      name: '' @ [sq] @ ''get_alerts'' @ [sq] @ '','',
      ''      description: '' @ [sq] @ ''Alerts for a state'' @ [sq] @ '','',
      ''      inputSchema: {'',
      ''        type: '' @ [sq] @ ''object'' @ [sq] @ '','',
      ''        properties: {'',
      ''        },'',
      ''        required: []'',
      ''      }'',
      ''    }'',
      ''  ]'',
      ''}));'',
      ''server.setRequestHandler(CallToolRequestSchema, async (request) => {'',
      ''  const { name, arguments: args } = request.params;'',
      ''  switch (name) {'',
      ''    case '' @ [sq] @ ''get_forecast'' @ [sq] @ '':'',
      ''      return get_forecastTool(client, args);'',
      ''    default:'',
      ''      throw new Error(`Unknown tool: ${name}`);'',
      ''  }'',
      ''});'',
      ''async function main() {'',
      ''  const transport = new StdioServerTransport();'',
      ''  await server.connect(transport);'',
      ''}'']"

section \<open>The registry: \<^verbatim>\<open>MCPRegistry\<close>\<close>

text \<open>
  A row of the table \<^verbatim>\<open>mcp_servers\<close>.  The columns \<^verbatim>\<open>spec\<close> and \<^verbatim>\<open>claude_config\<close> hold JSON
  text; they are modelled by the values that \<^verbatim>\<open>JSON.stringify\<close> is given, \<open>None\<close> being the
  default \<^verbatim>\<open>{}\<close>.  The type \<open>'s\<close> is the type of these values.
\<close>

record 's server_row =
  row_id :: string
  row_name :: string
  row_version :: string
  row_description :: string
  row_spec :: "'s option"
  row_package_path :: "string option"
  row_docker_image :: "string option"
  row_claude_config :: "'s option"
  row_created_at :: string
  row_updated_at :: string

text \<open>The database file (its rows, in insertion order) and whether \<^verbatim>\<open>this.db\<close> is set.\<close>

record 's registry =
  db_open :: bool
  rows :: "'s server_row list"

text \<open>The argument of \<^verbatim>\<open>register\<close>; a field that is \<^verbatim>\<open>undefined\<close> is \<open>None\<close>.\<close>

record 's manifest =
  m_name :: "string option"
  m_version :: "string option"
  m_description :: "string option"
  m_spec :: "'s option"
  m_package_path :: "string option"
  m_docker_image :: "string option"
  m_claude_config :: "'s option"

record register_result =
  reg_id :: string
  reg_name :: string
  reg_version :: string
  action :: string

text \<open>A string is falsy when it is \<^verbatim>\<open>undefined\<close> or empty.\<close>

definition falsy :: "string option \<Rightarrow> bool" where
  "falsy s = (s = None \<or> s = Some [])"

text \<open>\<^verbatim>\<open>init\<close> opens the database; \<^verbatim>\<open>CREATE TABLE IF NOT EXISTS\<close> keeps the rows.  The first
  argument is the error of the file system or of the database driver, if any.\<close>

definition init :: "string option \<Rightarrow> 's registry \<Rightarrow> string + 's registry" where
  "init init_error reg =
     (case init_error of Some e \<Rightarrow> Inl e | None \<Rightarrow> Inr (reg\<lparr>db_open := True\<rparr>))"

text \<open>
  \<^verbatim>\<open>register\<close>.  \<open>new_id\<close> is the value of \<^verbatim>\<open>generateId()\<close> and \<open>now\<close> the ISO time of the
  call.  The table declares \<^verbatim>\<open>id\<close> the primary key, so an insertion with an id already in
  the table is refused by the database.
\<close>

definition register ::
  "string option \<Rightarrow> string \<Rightarrow> string \<Rightarrow> 's registry \<Rightarrow> 's manifest \<Rightarrow>
   string + ('s registry \<times> register_result)" where
  "register init_error new_id now reg0 manifest =
     (case (if db_open reg0 then Inr reg0 else init init_error reg0) of
        Inl e \<Rightarrow> Inl e
      | Inr reg \<Rightarrow>
          (let version = (case m_version manifest of None \<Rightarrow> ''1.0.0'' | Some v \<Rightarrow> v);
               description = (case m_description manifest of None \<Rightarrow> [] | Some d \<Rightarrow> d)
           in case m_name manifest of
                None \<Rightarrow> Inl ''Server name is required''
              | Some name \<Rightarrow>
                  if name = [] then Inl ''Server name is required''
                  else
                    (case find (\<lambda>r. row_name r = name) (rows reg) of
                       Some existing \<Rightarrow>
                         Inr (reg\<lparr>rows :=
                                map (\<lambda>r. if row_name r = name
                                          then r\<lparr>row_version := version,
                                                 row_description := description,
                                                 row_spec := m_spec manifest,
                                                 row_package_path := m_package_path manifest,
                                                 row_docker_image := m_docker_image manifest,
                                                 row_claude_config := m_claude_config manifest,
                                                 row_updated_at := now\<rparr>
                                          else r) (rows reg)\<rparr>,
                              \<lparr>reg_id = row_id existing, reg_name = name, reg_version = version,
                               action = ''updated''\<rparr>)
                     | None \<Rightarrow>
                         if new_id \<in> row_id ` set (rows reg)
                         then Inl ''UNIQUE constraint failed: mcp_servers.id''
                         else
                           Inr (reg\<lparr>rows := rows reg @
                                  [\<lparr>row_id = new_id, row_name = name, row_version = version,
                                    row_description = description, row_spec = m_spec manifest,
                                    row_package_path = m_package_path manifest,
                                    row_docker_image = m_docker_image manifest,
                                    row_claude_config = m_claude_config manifest,
                                    row_created_at = now, row_updated_at = now\<rparr>]\<rparr>,
                                \<lparr>reg_id = new_id, reg_name = name, reg_version = version,
                                 action = ''created''\<rparr>))))"

text \<open>The values the request handlers test and send.\<close>

datatype 's jsval =
    Null
  | RowV "'s server_row"
  | RemovedV bool
  | PromiseV "'s jsval"

text \<open>Every object is truthy, a promise included; \<^verbatim>\<open>null\<close> is not.\<close>

fun truthy :: "'s jsval \<Rightarrow> bool" where
  "truthy Null = False"
| "truthy (RowV r) = True"
| "truthy (RemovedV b) = True"
| "truthy (PromiseV p) = True"

text \<open>
  \<^verbatim>\<open>get(name, version)\<close>, once its promise is settled, on a registry that is open (the
  handlers call it after \<^verbatim>\<open>ensureRegistry\<close>).  The column \<^verbatim>\<open>name\<close> is unique, so the order
  by \<^verbatim>\<open>updated_at\<close> chooses among at most one row.
\<close>

definition get :: "'s registry \<Rightarrow> string \<Rightarrow> string option \<Rightarrow> 's jsval" where
  "get reg name version =
     (case find (\<lambda>r. row_name r = name \<and> (falsy version \<or> Some (row_version r) = version))
             (rows reg) of
        None \<Rightarrow> Null
      | Some row \<Rightarrow> RowV row)"

text \<open>\<^verbatim>\<open>remove(name)\<close>, once its promise is settled, on a registry that is open: the
  registry left and the object returned (\<^verbatim>\<open>removed\<close> true or false).\<close>

definition remove :: "'s registry \<Rightarrow> string \<Rightarrow> 's registry \<times> 's jsval" where
  "remove reg name =
     (case find (\<lambda>r. row_name r = name) (rows reg) of
        None \<Rightarrow> (reg, RemovedV False)
      | Some existing \<Rightarrow> (reg\<lparr>rows := filter (\<lambda>r. row_name r \<noteq> name) (rows reg)\<rparr>, RemovedV True))"

text \<open>
  A call \<^verbatim>\<open>registry.method(name)\<close> as the request handlers write it.  A name that the class
  does not define is \<^verbatim>\<open>undefined\<close>, and calling it throws a \<^verbatim>\<open>TypeError\<close>.  A call of an
  \<^verbatim>\<open>async\<close> method returns a promise at once; the database driver is synchronous, so the
  rows have changed when the call returns.  Of the methods of the class the handlers call
  \<^verbatim>\<open>get\<close> with a name; \<^verbatim>\<open>remove\<close> is the other method that takes one.  The remaining
  members take other arguments and are not called this way; the model gives them a promise.
\<close>

definition MCPRegistry_methods :: "string list" where
  "MCPRegistry_methods =
     [''init'', ''generateId'', ''register'', ''get'', ''list'', ''remove'', ''parseRow'', ''close'']"

definition call_with_name ::
  "string \<Rightarrow> 's registry \<Rightarrow> string \<Rightarrow> string + ('s registry \<times> 's jsval)" where
  "call_with_name method reg name =
     (if method \<notin> set MCPRegistry_methods then Inl (''registry.'' @ method @ '' is not a function'')
      else if method = ''get'' then Inr (reg, PromiseV (get reg name None))
      else if method = ''remove'' then
        (case remove reg name of (reg', v) \<Rightarrow> Inr (reg', PromiseV v))
      else Inr (reg, PromiseV Null))"

text \<open>The uniqueness constraints of the table, and names as \<^verbatim>\<open>register\<close> accepts them.\<close>

definition table_ok :: "'s registry \<Rightarrow> bool" where
  "table_ok reg =
     (distinct (map row_id (rows reg)) \<and> distinct (map row_name (rows reg)) \<and>
      [] \<notin> row_name ` set (rows reg))"

section \<open>The API server: jobs and the pipeline\<close>

subsection \<open>The job store, a \<^verbatim>\<open>Map\<close>\<close>

text \<open>A \<^verbatim>\<open>Map\<close> keeps its entries in insertion order; \<^verbatim>\<open>set\<close> on a key that is present
  replaces the value where it stands, and appends the entry otherwise.\<close>

fun map_get :: "('k \<times> 'v) list \<Rightarrow> 'k \<Rightarrow> 'v option" where
  "map_get [] k = None"
| "map_get ((k', v) # m) k = (if k' = k then Some v else map_get m k)"

fun map_set :: "('k \<times> 'v) list \<Rightarrow> 'k \<Rightarrow> 'v \<Rightarrow> ('k \<times> 'v) list" where
  "map_set [] k v = [(k, v)]"
| "map_set ((k', v') # m) k v = (if k' = k then (k, v) # m else (k', v') # map_set m k v)"

subsection \<open>Specifications, validation reports, job records\<close>

record tool =
  tool_name :: "string option"
  tool_description :: "string option"

record auth =
  auth_type :: "string option"
  env_var :: "string option"

text \<open>The object the parser yields.  A property that is absent is \<open>None\<close>; the entries
  of \<^verbatim>\<open>resources\<close> are not read by the server and are kept as text.\<close>

record spec =
  spec_name :: "string option"
  spec_description :: "string option"
  spec_version :: "string option"
  spec_runtime :: "string option"
  spec_auth :: "auth option"
  spec_tools :: "tool list option"
  spec_resources :: "string list option"

text \<open>
  An entry of \<^verbatim>\<open>validation.errors\<close>: a string, or an object with a \<^verbatim>\<open>type\<close> and, depending
  on the check that made it, a \<^verbatim>\<open>message\<close> or an \<^verbatim>\<open>issue\<close>.  (The pipeline reads no other
  property of the entry.)
\<close>

datatype verror =
    VString string
  | VObject (v_type: string) (v_message: "string option") (v_issue: "string option")

record validation =
  valid :: bool
  v_errors :: "verror list"
  v_warnings :: "verror list"

record gen_result =
  serverDir :: string
  files :: "string list"

record pkg_result =
  pkg_success :: bool
  packagePath :: "string option"

record job_result =
  r_name :: string
  r_serverDir :: string
  r_package_path :: "string option"
  r_description :: string
  r_spec :: spec
  r_manifest :: register_result
  r_stages_completed :: "string list"

text \<open>A job record; a key that the object does not have is \<open>None\<close>.  Times are numbers.\<close>

record job =
  status :: string
  stage :: string
  created_at :: nat
  completed_at :: "nat option"
  failed_at :: "nat option"
  result :: "job_result option"
  errors :: "string list option"
  stages_completed :: "string list option"

record server_state =
  jobs :: "(string \<times> job) list"
  registry :: "spec registry"
  registryInitialized :: bool

text \<open>
  What is outside the program during one run: the environment variable, the
  collaborators with what they resolve to (\<open>Inr\<close>) or the message of the error they reject
  with (\<open>Inl\<close>), the generated id and the clock.
\<close>

record env =
  api_key :: "string option"
  parse :: "string \<Rightarrow> string + spec option"
  generate :: "spec \<Rightarrow> string \<Rightarrow> string + gen_result"
  validate :: "string \<Rightarrow> string + validation"
  package :: "string \<Rightarrow> string \<Rightarrow> string + pkg_result"
  init_error :: "string option"
  new_id :: string
  now_iso :: string
  now :: nat

subsection \<open>\<^verbatim>\<open>MCPValidator.validate\<close>\<close>

record ts_result =
  ts_success :: bool
  ts_errors :: "verror list"

record lint_result =
  lint_errors :: "verror list"
  lint_warnings :: "verror list"

record deps_result =
  deps_valid :: bool
  deps_missing :: "string list"
  deps_warnings :: "verror list"

text \<open>
  The report of \<^verbatim>\<open>validate\<close> from the results of its checks.  The checks of the compiler,
  of the linter and of the dependencies run external tools and read other files; their
  results are arguments.  The protocol check is \<open>checkProtocol\<close> above, on the text of
  \<^verbatim>\<open>src/index.ts\<close>.
\<close>

definition MCPValidator_validate ::
  "bool \<Rightarrow> string \<Rightarrow> ts_result \<Rightarrow> lint_result \<Rightarrow> string option \<Rightarrow> deps_result \<Rightarrow> validation" where
  "MCPValidator_validate dir_exists dir tsResult lintResult index_file depsResult =
     (if \<not> dir_exists then
        \<lparr>valid = False,
         v_errors = [VObject ''filesystem'' (Some (''Directory not found: '' @ dir)) None],
         v_warnings = []\<rparr>
      else
        (let protocolResult = checkProtocol index_file;
             errs =
               (if \<not> ts_success tsResult then ts_errors tsResult else []) @
               lint_errors lintResult @
               (if \<not> compliant protocolResult
                then map (\<lambda>issue. VObject ''protocol'' None (Some issue)) (issues protocolResult)
                else []) @
               (if \<not> deps_valid depsResult
                then map (\<lambda>dep. VObject ''dependency'' (Some (''Missing required dependency: '' @ dep)) None)
                       (deps_missing depsResult)
                else []);
             warns = lint_warnings lintResult @ deps_warnings depsResult
         in \<lparr>valid = (errs = []), v_errors = errs, v_warnings = warns\<rparr>))"

subsection \<open>\<^verbatim>\<open>processJob\<close>\<close>

text \<open>\<^verbatim>\<open>s || d\<close> on a string that may be absent.\<close>

definition or_default :: "string option \<Rightarrow> string \<Rightarrow> string" where
  "or_default s d = (case s of None \<Rightarrow> d | Some x \<Rightarrow> if x = [] then d else x)"

text \<open>\<^verbatim>\<open>typeof e === 'string' ? e : (e.message || String(e))\<close>\<close>

definition error_msg :: "verror \<Rightarrow> string" where
  "error_msg e =
     (case e of
        VString s \<Rightarrow> s
      | VObject t m i \<Rightarrow> or_default m ''[object Object]'')"

definition is_critical :: "verror \<Rightarrow> bool" where
  "is_critical e =
     (str_includes (error_msg e) ''TypeScript'' \<or> str_includes (error_msg e) ''import'' \<or>
      str_includes (error_msg e) ''syntax'')"

text \<open>\<^verbatim>\<open>Array.prototype.join\<close> on the entries: a string as it is, an object as
  \<^verbatim>\<open>[object Object]\<close>.\<close>

definition to_string :: "verror \<Rightarrow> string" where
  "to_string e = (case e of VString s \<Rightarrow> s | VObject t m i \<Rightarrow> ''[object Object]'')"

fun js_join :: "string \<Rightarrow> string list \<Rightarrow> string" where
  "js_join sep [] = []"
| "js_join sep [x] = x"
| "js_join sep (x # y # ys) = x @ sep @ js_join sep (y # ys)"

definition ensureRegistry :: "env \<Rightarrow> server_state \<Rightarrow> string + server_state" where
  "ensureRegistry e st =
     (if registryInitialized st then Inr st
      else case init (init_error e) (registry st) of
             Inl m \<Rightarrow> Inl m
           | Inr reg \<Rightarrow> Inr (st\<lparr>registry := reg, registryInitialized := True\<rparr>))"

text \<open>The variables of one run of \<^verbatim>\<open>processJob\<close>: the server's state, the object \<^verbatim>\<open>job\<close> and
  the array \<^verbatim>\<open>stages\<close>.\<close>

record run_state =
  srv :: server_state
  job_obj :: job
  stages :: "string list"

text \<open>The three statements that open every stage: \<^verbatim>\<open>job.stage = ...\<close>, the copy of the
  job into the store, and the push of the stage's name.\<close>

definition begin_stage :: "string \<Rightarrow> string \<Rightarrow> string \<Rightarrow> run_state \<Rightarrow> run_state" where
  "begin_stage jobId stage_name pushed rs =
     (let j = (job_obj rs)\<lparr>stage := stage_name\<rparr>
      in rs\<lparr>job_obj := j,
            srv := (srv rs)\<lparr>jobs := map_set (jobs (srv rs)) jobId j\<rparr>,
            stages := stages rs @ [pushed]\<rparr>)"

text \<open>The object that stage 5 hands to \<^verbatim>\<open>registry.register\<close>.\<close>

definition job_manifest :: "spec \<Rightarrow> pkg_result \<Rightarrow> spec manifest" where
  "job_manifest sp pkgResult =
     \<lparr>m_name = Some (or_default (spec_name sp) []),
      m_version = Some (or_default (spec_version sp) ''1.0.0''),
      m_description = Some (or_default (spec_description sp) []),
      m_spec = Some sp,
      m_package_path = packagePath pkgResult,
      m_docker_image = None,
      m_claude_config = None\<rparr>"

text \<open>
  The body of the \<^verbatim>\<open>try\<close> block: the variables where the block ends, with the message of
  the error thrown (\<open>Inl\<close>) or the result of the job (\<open>Inr\<close>).
\<close>

definition run_stages ::
  "env \<Rightarrow> string \<Rightarrow> string \<Rightarrow> string option \<Rightarrow> run_state \<Rightarrow> run_state \<times> (string + job_result)" where
  "run_stages e jobId description runtime rs0 =
     (if falsy (api_key e) then (rs0, Inl ''ANTHROPIC_API_KEY environment variable not set'')
      else
        let rs1 = begin_stage jobId ''parsing'' ''parse'' rs0 in
        case parse e description of
          Inl m \<Rightarrow> (rs1, Inl m)
        | Inr None \<Rightarrow> (rs1, Inl ''Parser failed to generate valid spec'')
        | Inr (Some sp) \<Rightarrow>
            if falsy (spec_name sp) then (rs1, Inl ''Parser failed to generate valid spec'')
            else
              let name = or_default (spec_name sp) [];
                  rs2 = begin_stage jobId ''generating'' ''generate'' rs1 in
              case generate e sp (''/opt/swarm-mcp-factory/output/'' @ name) of
                Inl m \<Rightarrow> (rs2, Inl m)
              | Inr genResult \<Rightarrow>
                  let rs3 = begin_stage jobId ''validating'' ''validate'' rs2 in
                  case validate e (serverDir genResult) of
                    Inl m \<Rightarrow> (rs3, Inl m)
                  | Inr validation \<Rightarrow>
                      let criticalErrors = filter is_critical (v_errors validation) in
                      if \<not> valid validation \<and> criticalErrors \<noteq> [] then
                        (rs3, Inl (''Validation failed: '' @ js_join ''; '' (map to_string criticalErrors)))
                      else
                        let rs4 = begin_stage jobId ''packaging'' ''package'' rs3 in
                        case package e (serverDir genResult)
                               (case runtime of None \<Rightarrow> ''node'' | Some r \<Rightarrow> r) of
                          Inl m \<Rightarrow> (rs4, Inl m)
                        | Inr pkgResult \<Rightarrow>
                            let rs5 = begin_stage jobId ''registering'' ''register'' rs4 in
                            case ensureRegistry e (srv rs5) of
                              Inl m \<Rightarrow> (rs5, Inl m)
                            | Inr st \<Rightarrow>
                                case register (init_error e) (new_id e) (now_iso e) (registry st)
                                       (job_manifest sp pkgResult) of
                                  Inl m \<Rightarrow> (rs5\<lparr>srv := st\<rparr>, Inl m)
                                | Inr (reg, manifest) \<Rightarrow>
                                    (rs5\<lparr>srv := st\<lparr>registry := reg\<rparr>\<rparr>,
                                     Inr \<lparr>r_name = name,
                                          r_serverDir = serverDir genResult,
                                          r_package_path = packagePath pkgResult,
                                          r_description = or_default (spec_description sp) [],
                                          r_spec = sp,
                                          r_manifest = manifest,
                                          r_stages_completed = stages rs5\<rparr>))"

text \<open>
  \<^verbatim>\<open>processJob\<close>.  When the store has no job of this id, \<^verbatim>\<open>job\<close> is \<^verbatim>\<open>undefined\<close>: the first
  assignment to \<^verbatim>\<open>job.stage\<close> and the \<^verbatim>\<open>catch\<close> block, which reads it, both throw, and the
  promise rejects (\<open>Inl\<close>) with the store as it was.  Otherwise the run ends with the record
  of the completed job, or with the record that the \<^verbatim>\<open>catch\<close> block writes.  An error that a
  collaborator rejects with is an \<^verbatim>\<open>Error\<close> object, with its message.
\<close>

definition processJob ::
  "env \<Rightarrow> server_state \<Rightarrow> string \<Rightarrow> string \<Rightarrow> string option \<Rightarrow> string + server_state" where
  "processJob e st jobId description runtime =
     (case map_get (jobs st) jobId of
        None \<Rightarrow> Inl ''TypeError''
      | Some j \<Rightarrow>
          (case run_stages e jobId description runtime \<lparr>srv = st, job_obj = j, stages = []\<rparr> of
             (rs, Inr res) \<Rightarrow>
               Inr ((srv rs)\<lparr>jobs := map_set (jobs (srv rs)) jobId
                       \<lparr>status = ''complete'', stage = ''done'',
                        created_at = created_at (job_obj rs),
                        completed_at = Some (now e), failed_at = None,
                        result = Some res, errors = None, stages_completed = None\<rparr>\<rparr>)
           | (rs, Inl message) \<Rightarrow>
               Inr ((srv rs)\<lparr>jobs := map_set (jobs (srv rs)) jobId
                       \<lparr>status = ''failed'', stage = stage (job_obj rs),
                        created_at = created_at (job_obj rs),
                        completed_at = None, failed_at = Some (now e),
                        result = None, errors = Some [message],
                        stages_completed = Some (stages rs)\<rparr>\<rparr>)))"

text \<open>The record of a job after a run, if the run left one.\<close>

definition job_after :: "string + server_state \<Rightarrow> string \<Rightarrow> job option" where
  "job_after r jobId = (case r of Inl m \<Rightarrow> None | Inr st \<Rightarrow> map_get (jobs st) jobId)"

subsection \<open>The request handlers\<close>

text \<open>What \<^verbatim>\<open>res.json\<close> sends for a value: \<^verbatim>\<open>JSON.stringify\<close> of a promise is \<^verbatim>\<open>{}\<close>, since a
  promise has no enumerable property of its own.\<close>

datatype 's json_value =
    JNull
  | JRow "'s server_row"
  | JRemoved bool
  | JEmptyObject

fun json_of :: "'s jsval \<Rightarrow> 's json_value" where
  "json_of Null = JNull"
| "json_of (RowV r) = JRow r"
| "json_of (RemovedV b) = JRemoved b"
| "json_of (PromiseV p) = JEmptyObject"

record job_summary =
  s_job_id :: string
  s_status :: string
  s_stage :: string
  s_created_at :: nat
  s_result_name :: "string option"

datatype response_body =
    ErrorBody string
  | JsonBody "spec json_value"
  | SuccessBody string
  | SubmittedBody string
  | JobsBody "job_summary list" nat

record response =
  http_status :: nat
  body :: response_body

text \<open>
  \<^verbatim>\<open>POST /api/generate\<close>.  \<open>description\<close> is the field of the request when it is a string,
  \<open>jobId\<close> the value of \<^verbatim>\<open>generateJobId()\<close>.  The job is stored before the response is
  sent; \<^verbatim>\<open>processJob\<close> runs later.
\<close>

definition post_generate :: "env \<Rightarrow> server_state \<Rightarrow> string \<Rightarrow> string option \<Rightarrow> server_state \<times> response" where
  "post_generate e st jobId description =
     (if falsy description then
        (st, \<lparr>http_status = 400, body = ErrorBody ''Missing or invalid description field''\<rparr>)
      else
        (st\<lparr>jobs := map_set (jobs st) jobId
               \<lparr>status = ''processing'', stage = ''queued'', created_at = now e,
                completed_at = None, failed_at = None, result = None, errors = None,
                stages_completed = None\<rparr>\<rparr>,
         \<lparr>http_status = 200, body = SubmittedBody jobId\<rparr>))"

text \<open>\<^verbatim>\<open>Array.prototype.slice(start)\<close> with one argument.\<close>

definition js_slice_from :: "int \<Rightarrow> 'a list \<Rightarrow> 'a list" where
  "js_slice_from start xs =
     (let len = int (length xs);
          k = (if start < 0 then max (len + start) 0 else min start len)
      in drop (nat k) xs)"

text \<open>
  \<^verbatim>\<open>GET /api/jobs\<close>.  The argument is the value of \<^verbatim>\<open>parseInt(req.query.limit)\<close>, \<open>None\<close> for
  \<^verbatim>\<open>NaN\<close>; zero and \<^verbatim>\<open>NaN\<close> are falsy and give the default of 50.
\<close>

definition list_jobs :: "int option \<Rightarrow> server_state \<Rightarrow> response" where
  "list_jobs parsed st =
     (let limit = (case parsed of None \<Rightarrow> 50 | Some n \<Rightarrow> if n = 0 then 50 else n);
          jobList =
            map (\<lambda>(id, j). \<lparr>s_job_id = id, s_status = status j, s_stage = stage j,
                            s_created_at = created_at j,
                            s_result_name = map_option r_name (result j)\<rparr>)
              (js_slice_from (- limit) (jobs st))
      in \<lparr>http_status = 200, body = JobsBody jobList (length jobList)\<rparr>)"

text \<open>The job ids of a response of \<^verbatim>\<open>GET /api/jobs\<close>, in the order sent.\<close>

definition listed_ids :: "response \<Rightarrow> string list" where
  "listed_ids r = (case body r of JobsBody js n \<Rightarrow> map s_job_id js | _ \<Rightarrow> [])"

text \<open>\<^verbatim>\<open>GET /api/servers/:name\<close>.  The call of \<^verbatim>\<open>registry.get\<close> is not awaited.\<close>

definition get_server :: "env \<Rightarrow> server_state \<Rightarrow> string \<Rightarrow> server_state \<times> response" where
  "get_server e st name =
     (case ensureRegistry e st of
        Inl m \<Rightarrow> (st, \<lparr>http_status = 500, body = ErrorBody m\<rparr>)
      | Inr st' \<Rightarrow>
          (case call_with_name ''get'' (registry st') name of
             Inl m \<Rightarrow> (st', \<lparr>http_status = 500, body = ErrorBody m\<rparr>)
           | Inr (reg, server) \<Rightarrow>
               if \<not> truthy server then
                 (st'\<lparr>registry := reg\<rparr>, \<lparr>http_status = 404, body = ErrorBody ''Server not found''\<rparr>)
               else
                 (st'\<lparr>registry := reg\<rparr>, \<lparr>http_status = 200, body = JsonBody (json_of server)\<rparr>)))"

text \<open>\<^verbatim>\<open>DELETE /api/servers/:name\<close>.  The handler calls \<^verbatim>\<open>registry.unregister\<close>.\<close>

definition delete_server :: "env \<Rightarrow> server_state \<Rightarrow> string \<Rightarrow> server_state \<times> response" where
  "delete_server e st name =
     (case ensureRegistry e st of
        Inl m \<Rightarrow> (st, \<lparr>http_status = 500, body = ErrorBody m\<rparr>)
      | Inr st' \<Rightarrow>
          (case call_with_name ''unregister'' (registry st') name of
             Inl m \<Rightarrow> (st', \<lparr>http_status = 500, body = ErrorBody m\<rparr>)
           | Inr (reg, deleted) \<Rightarrow>
               if \<not> truthy deleted then
                 (st'\<lparr>registry := reg\<rparr>, \<lparr>http_status = 404, body = ErrorBody ''Server not found''\<rparr>)
               else
                 (st'\<lparr>registry := reg\<rparr>, \<lparr>http_status = 200, body = SuccessBody name\<rparr>)))"

subsection \<open>A registry with one server, and a run of the pipeline\<close>

definition weather_row :: "spec server_row" where
  "weather_row =
     \<lparr>row_id = ''mcp_1700000000000_k3x9ab'', row_name = ''weather'', row_version = ''1.0.0'',
      row_description = ''Weather lookup'', row_spec = None, row_package_path = None,
      row_docker_image = None, row_claude_config = None,
      row_created_at = ''2026-01-01T00:00:00.000Z'', row_updated_at = ''2026-01-01T00:00:00.000Z''\<rparr>"

definition weather_registry :: "spec registry" where
  "weather_registry = \<lparr>db_open = True, rows = [weather_row]\<rparr>"

definition weather_manifest :: "spec manifest" where
  "weather_manifest =
     \<lparr>m_name = Some ''weather'', m_version = Some ''1.1.0'', m_description = None, m_spec = None,
      m_package_path = None, m_docker_image = None, m_claude_config = None\<rparr>"

definition news_manifest :: "spec manifest" where
  "news_manifest = weather_manifest\<lparr>m_name := Some ''news''\<rparr>"

definition weather_server :: server_state where
  "weather_server = \<lparr>jobs = [], registry = weather_registry, registryInitialized = True\<rparr>"

text \<open>A specification with one tool, as the parser yields it for the description
  \<^verbatim>\<open>weather lookup tool\<close>.\<close>

definition forecast_spec :: spec where
  "forecast_spec =
     \<lparr>spec_name = Some ''weather-lookup'', spec_description = Some ''Weather lookup tool'',
      spec_version = Some ''1.0.0'', spec_runtime = Some ''typescript'',
      spec_auth = Some \<lparr>auth_type = Some ''none'', env_var = None\<rparr>,
      spec_tools = Some [\<lparr>tool_name = Some ''get_forecast'',
                          tool_description = Some ''Forecast for a city''\<rparr>],
      spec_resources = Some []\<rparr>"

text \<open>An environment in which the key is set and the generator, the packager and the
  registry succeed; the outcomes of the parser and of the validator are its arguments.\<close>

definition scenario_env :: "string + spec option \<Rightarrow> string + validation \<Rightarrow> env" where
  "scenario_env parsed validated =
     \<lparr>api_key = Some ''sk-key'',
      parse = (\<lambda>description. parsed),
      generate = (\<lambda>sp dir. Inr \<lparr>serverDir = dir @ ''/mcp-'' @ or_default (spec_name sp) [],
                               files = [''package.json'', ''src/index.ts'']\<rparr>),
      validate = (\<lambda>dir. validated),
      package = (\<lambda>dir runtime. Inr \<lparr>pkg_success = True, packagePath = None\<rparr>),
      init_error = None,
      new_id = ''mcp_1700000002000_q7w8e9'',
      now_iso = ''2026-03-03T00:00:00.000Z'',
      now = 1700000003000\<rparr>"

text \<open>The server after \<^verbatim>\<open>POST /api/generate\<close> with this description.\<close>

definition job_1 :: string where
  "job_1 = ''job_1700000001000_a1b2c3d4''"

definition submitted_server :: server_state where
  "submitted_server =
     fst (post_generate (scenario_env (Inr None) (Inl [])\<lparr>now := 1700000001000\<rparr>) weather_server
            job_1 (Some ''weather lookup tool''))"

text \<open>The report of the validator on a server directory whose index is the document of
  scenario C, when the compiler, the linter and the dependencies have nothing to report.\<close>

definition scenario_C_report :: validation where
  "scenario_C_report =
     MCPValidator_validate True ''/opt/swarm-mcp-factory/output/weather-lookup/mcp-weather-lookup''
       \<lparr>ts_success = True, ts_errors = []\<rparr> \<lparr>lint_errors = [], lint_warnings = []\<rparr>
       (Some scenario_C_document) \<lparr>deps_valid = True, deps_missing = [], deps_warnings = []\<rparr>"

text \<open>A report with one error of the compiler.\<close>

definition typescript_report :: validation where
  "typescript_report =
     \<lparr>valid = False,
      v_errors = [VObject ''typescript'' (Some ''TypeScript compilation failed'') None],
      v_warnings = []\<rparr>"

definition clean_report :: validation where
  "clean_report = \<lparr>valid = True, v_errors = [], v_warnings = []\<rparr>"

text \<open>The server after a second \<^verbatim>\<open>POST /api/generate\<close>, one second later.\<close>

definition job_2 :: string where
  "job_2 = ''job_1700000002000_e5f6a7b8''"

definition two_jobs_server :: server_state where
  "two_jobs_server =
     fst (post_generate (scenario_env (Inr None) (Inl [])\<lparr>now := 1700000002000\<rparr>) submitted_server
            job_2 (Some ''news headlines tool''))"

section \<open>The parser: \<^verbatim>\<open>MCPParser\<close>\<close>

text \<open>The decimal digits of an array index, as a template literal prints it.\<close>

definition digit :: "nat \<Rightarrow> char" where
  "digit d = ''0123456789'' ! d"

function show_nat :: "nat \<Rightarrow> string" where
  "show_nat n = (if n < 10 then [digit n] else show_nat (n div 10) @ [digit (n mod 10)])"
  by pat_completeness auto
termination
  by (relation "measure id") auto

definition is_lower :: "char \<Rightarrow> bool" where
  "is_lower c = (97 \<le> (of_char c :: nat) \<and> (of_char c :: nat) \<le> 122)"

definition is_digit :: "char \<Rightarrow> bool" where
  "is_digit c = (48 \<le> (of_char c :: nat) \<and> (of_char c :: nat) \<le> 57)"

text \<open>\<^verbatim>\<open>/^[a-z][a-z0-9-]*$/\<close> and \<^verbatim>\<open>/^[a-z][a-z0-9_]*$/\<close>, with the third character of the
  class as argument.\<close>

definition name_format :: "char \<Rightarrow> string \<Rightarrow> bool" where
  "name_format extra s =
     (case s of
        [] \<Rightarrow> False
      | c # cs \<Rightarrow> is_lower c \<and> list_all (\<lambda>x. is_lower x \<or> is_digit x \<or> x = extra) cs)"

text \<open>The errors that \<^verbatim>\<open>validate\<close> pushes for the tool at index \<open>i\<close>.\<close>

definition tool_errors :: "nat \<Rightarrow> tool \<Rightarrow> string list" where
  "tool_errors i t =
     (if falsy (tool_name t) then [''Tool '' @ show_nat i @ '': missing name''] else []) @
     (if falsy (tool_description t) then [''Tool '' @ show_nat i @ '': missing description''] else []) @
     (if \<not> falsy (tool_name t) \<and> \<not> name_format CHR ''_'' (or_default (tool_name t) [])
      then [''Tool '' @ or_default (tool_name t) [] @ '': must be snake_case''] else [])"

text \<open>\<^verbatim>\<open>MCPParser.validate\<close>\<close>

definition MCPParser_validate :: "spec \<Rightarrow> string list" where
  "MCPParser_validate sp =
     (if falsy (spec_name sp) then [''Missing required field: name''] else []) @
     (if falsy (spec_description sp) then [''Missing required field: description''] else []) @
     (if spec_tools sp = None \<or> spec_tools sp = Some [] then [''At least one tool is required''] else []) @
     (if \<not> falsy (spec_name sp) \<and> \<not> name_format CHR ''-'' (or_default (spec_name sp) [])
      then [''Name must be kebab-case starting with letter''] else []) @
     (case spec_tools sp of
        None \<Rightarrow> []
      | Some ts \<Rightarrow> concat (map (\<lambda>(i, t). tool_errors i t) (enumerate 0 ts))) @
     (case spec_auth sp of
        None \<Rightarrow> []
      | Some a \<Rightarrow>
          if auth_type a \<noteq> Some ''none'' \<and> falsy (env_var a)
          then [''Auth requires env_var when type is not '' @ [dq] @ ''none'' @ [dq]] else [])"

text \<open>
  What the request to the language model and the decoding of its answer give: the
  request rejects with a message, or the answer is not JSON (with the message of
  \<^verbatim>\<open>JSON.parse\<close>), or it is an object.
\<close>

datatype llm_reply =
    RequestFailed string
  | NotJson string
  | JsonObject spec

text \<open>
  \<^verbatim>\<open>MCPParser.parse\<close> from that point on: the defaults, then the validation.  The options
  \<^verbatim>\<open>runtime\<close> and \<^verbatim>\<open>validate\<close> are \<open>None\<close> when the caller does not give them, as
  \<^verbatim>\<open>processJob\<close> does not.
\<close>

definition MCPParser_parse :: "llm_reply \<Rightarrow> string option \<Rightarrow> bool option \<Rightarrow> string + spec" where
  "MCPParser_parse reply runtime_opt validate_opt =
     (case reply of
        RequestFailed m \<Rightarrow> Inl m
      | NotJson m \<Rightarrow> Inl (''Failed to parse LLM response as JSON: '' @ m)
      | JsonObject sp0 \<Rightarrow>
          (let sp = sp0\<lparr>spec_version := Some (or_default (spec_version sp0) ''1.0.0''),
                       spec_runtime := Some (case runtime_opt of None \<Rightarrow> ''typescript'' | Some r \<Rightarrow> r),
                       spec_auth := Some (case spec_auth sp0 of
                                            None \<Rightarrow> \<lparr>auth_type = Some ''none'', env_var = None\<rparr>
                                          | Some a \<Rightarrow> a),
                       spec_resources := Some (case spec_resources sp0 of None \<Rightarrow> [] | Some rs \<Rightarrow> rs)\<rparr>;
               errs = MCPParser_validate sp
           in if (case validate_opt of None \<Rightarrow> True | Some b \<Rightarrow> b) \<and> errs \<noteq> []
              then Inl (''Spec validation failed: '' @ js_join '', '' errs)
              else Inr sp))"

text \<open>The call \<^verbatim>\<open>parser.parse(description)\<close> of \<^verbatim>\<open>processJob\<close>, for a given answer of the
  language model.\<close>

definition parser_of :: "llm_reply \<Rightarrow> string + spec option" where
  "parser_of reply =
     (case MCPParser_parse reply None None of Inl m \<Rightarrow> Inl m | Inr sp \<Rightarrow> Inr (Some sp))"

text \<open>An answer of the language model that is an object without a name.\<close>

definition nameless_object :: spec where
  "nameless_object =
     \<lparr>spec_name = None, spec_description = Some ''Weather lookup tool'',
      spec_version = None, spec_runtime = None, spec_auth = None,
      spec_tools = Some [\<lparr>tool_name = Some ''get_forecast'',
                          tool_description = Some ''Forecast for a city''\<rparr>],
      spec_resources = None\<rparr>"

section \<open>Properties of the compliance checker\<close>

subsection \<open>Sets in insertion order\<close>

lemma distinct_set_add: "distinct xs \<Longrightarrow> distinct (set_add xs x)"
  by (simp add: set_add_def)

lemma distinct_set_add_all: "distinct xs \<Longrightarrow> distinct (set_add_all xs ys)"
  unfolding set_add_all_def
  by (induction ys arbitrary: xs) (simp_all add: distinct_set_add)

lemma set_set_add_all: "set (set_add_all xs ys) = set xs \<union> set ys"
  unfolding set_add_all_def
  by (induction ys arbitrary: xs) (auto simp: set_add_def)

lemma distinct_definedTools: "distinct (definedTools content)"
  by (simp add: definedTools_def distinct_set_add_all split: option.splits)

lemma distinct_handledTools: "distinct (handledTools content)"
  by (simp add: handledTools_def distinct_set_add_all)

lemma count_list_distinct: "distinct xs \<Longrightarrow> count_list xs x = (if x \<in> set xs then 1 else 0)"
  by (induction xs) auto

lemma count_list_map_inj:
  assumes "\<And>a b. f a = f b \<Longrightarrow> a = b"
  shows "count_list (map f xs) (f x) = count_list xs x"
  using assms by (induction xs) auto

lemma count_map_other:
  assumes "\<And>a. f a \<noteq> y"
  shows "count_list (map f xs) y = 0"
  using assms by (induction xs) auto

subsection \<open>The issue texts do not collide\<close>

lemma missing_handler_issue_inj: "missing_handler_issue a = missing_handler_issue b \<Longrightarrow> a = b"
  by (simp add: missing_handler_issue_def)

lemma undeclared_issue_inj: "undeclared_issue a = undeclared_issue b \<Longrightarrow> a = b"
  by (simp add: undeclared_issue_def)

lemma missing_not_undeclared: "missing_handler_issue a \<noteq> undeclared_issue b"
  by (simp add: missing_handler_issue_def undeclared_issue_def)

lemma missing_not_schema: "missing_handler_issue a \<noteq> schema_issue"
  by (simp add: missing_handler_issue_def schema_issue_def)

lemma undeclared_not_schema: "undeclared_issue a \<noteq> schema_issue"
  by (simp add: undeclared_issue_def schema_issue_def)

lemma missing_not_fixed:
  "missing_handler_issue a \<noteq> ''Missing ListToolsRequestSchema handler''"
  "missing_handler_issue a \<noteq> ''Missing CallToolRequestSchema handler''"
  "missing_handler_issue a \<noteq> ''Missing server connection/run call''"
  by (simp_all add: missing_handler_issue_def)

lemma undeclared_not_fixed:
  "undeclared_issue a \<noteq> ''Missing ListToolsRequestSchema handler''"
  "undeclared_issue a \<noteq> ''Missing CallToolRequestSchema handler''"
  "undeclared_issue a \<noteq> ''Missing server connection/run call''"
  by (simp_all add: undeclared_issue_def)

lemma count_schema_issues_missing:
  "count_list (schema_issues content) (missing_handler_issue a) = 0"
  by (rule count_notin) (auto simp: schema_issues_def missing_not_schema)

lemma count_schema_issues_undeclared:
  "count_list (schema_issues content) (undeclared_issue a) = 0"
  by (rule count_notin) (auto simp: schema_issues_def undeclared_not_schema)

subsection \<open>How often an issue text occurs in the report\<close>

lemma count_missing:
  "count_list (issues (checkProtocol (Some content))) (missing_handler_issue tool) =
     (if tool \<in> set (definedTools content) \<and> tool \<notin> set (handledTools content) then 1 else 0)"
proof -
  let ?missing = "filter (\<lambda>t. t \<notin> set (handledTools content)) (definedTools content)"
  have d: "distinct ?missing" by (simp add: distinct_definedTools)
  have m: "count_list (map missing_handler_issue ?missing) (missing_handler_issue tool) =
        (if tool \<in> set (definedTools content) \<and> tool \<notin> set (handledTools content) then 1 else 0)"
    using count_list_distinct[OF d, of tool]
    by (simp add: count_list_map_inj[of missing_handler_issue, OF missing_handler_issue_inj])
  have u: "\<And>xs. count_list (map undeclared_issue xs) (missing_handler_issue tool) = 0"
    by (rule count_map_other) (simp add: missing_not_undeclared[symmetric])
  show ?thesis
    unfolding checkProtocol_def Let_def
    by (simp add: m u count_schema_issues_missing missing_not_fixed[symmetric] del: filter.simps)
qed

lemma count_undeclared:
  "count_list (issues (checkProtocol (Some content))) (undeclared_issue tool) =
     (if tool \<in> set (handledTools content) \<and> tool \<notin> set (definedTools content) \<and> tool \<noteq> ''default''
      then 1 else 0)"
proof -
  let ?und = "filter (\<lambda>t. t \<notin> set (definedTools content) \<and> t \<noteq> ''default'') (handledTools content)"
  have d: "distinct ?und" by (simp add: distinct_handledTools)
  have m: "count_list (map undeclared_issue ?und) (undeclared_issue tool) =
        (if tool \<in> set (handledTools content) \<and> tool \<notin> set (definedTools content) \<and> tool \<noteq> ''default''
         then 1 else 0)"
    using count_list_distinct[OF d, of tool]
    by (simp add: count_list_map_inj[of undeclared_issue, OF undeclared_issue_inj])
  have u: "\<And>xs. count_list (map missing_handler_issue xs) (undeclared_issue tool) = 0"
    by (rule count_map_other) (simp add: missing_not_undeclared)
  show ?thesis
    unfolding checkProtocol_def Let_def
    by (simp add: m u count_schema_issues_undeclared undeclared_not_fixed[symmetric] del: filter.simps)
qed

lemma compliant_iff:
  "compliant (checkProtocol (Some content)) =
     (str_includes content ''ListToolsRequestSchema'' \<and>
      str_includes content ''CallToolRequestSchema'' \<and>
      set (definedTools content) \<subseteq> set (handledTools content) \<and>
      (str_includes content ''server.connect'' \<or> str_includes content ''.run(''))"
  unfolding checkProtocol_def Let_def
  by (auto simp: filter_empty_conv simp del: str_includes.simps)

lemma scenario_C_defined: "definedTools scenario_C_document = [''get_forecast'']"
  by code_simp

lemma scenario_C_handled: "handledTools scenario_C_document = []"
  by code_simp

lemma scenario_D_defined: "definedTools scenario_D_document = [''get_forecast'']"
  by code_simp

lemma scenario_D_handled: "handledTools scenario_D_document = [''get_forecast'', ''legacy_tool'']"
  by code_simp

text \<open>
  The report on the names that \<open>definedTools\<close> extracts: when one of them has no handler,
  the check returns \<open>compliant = False\<close>, and the issues hold the entry
  \<^verbatim>\<open>Missing tool handler for '<name>'\<close> exactly once for each extracted name without a
  handler, and for no other name.
\<close>

lemma missing_handler_reported:
  assumes "tool \<in> set (definedTools content)" and "tool \<notin> set (handledTools content)"
  shows "compliant (checkProtocol (Some content)) = False \<and>
         (\<forall>t. count_list (issues (checkProtocol (Some content))) (missing_handler_issue t) =
              (if t \<in> set (definedTools content) \<and> t \<notin> set (handledTools content) then 1 else 0))"
proof -
  have "\<not> set (definedTools content) \<subseteq> set (handledTools content)"
    using assms by blast
  then have "compliant (checkProtocol (Some content)) = False"
    by (simp add: compliant_iff)
  then show ?thesis
    by (simp add: count_missing)
qed

lemma missing_handler_reported_scenario_C:
  "''get_forecast'' \<in> set (definedTools scenario_C_document) \<and>
   ''get_forecast'' \<notin> set (handledTools scenario_C_document) \<and>
   compliant (checkProtocol (Some scenario_C_document)) = False \<and>
   count_list (issues (checkProtocol (Some scenario_C_document)))
     (missing_handler_issue ''get_forecast'') = 1"
proof -
  have d: "''get_forecast'' \<in> set (definedTools scenario_C_document)"
    by (simp add: scenario_C_defined)
  have h: "''get_forecast'' \<notin> set (handledTools scenario_C_document)"
    by (simp add: scenario_C_handled)
  from missing_handler_reported[OF d h] d h show ?thesis
    by simp
qed

lemma two_tools_listed:
  "exec_all re_tool_name 0 two_tools_document = [''get_forecast'', ''get_alerts'']"
  by code_simp

lemma two_tools_defined: "definedTools two_tools_document = [''get_forecast'']"
  by code_simp

lemma two_tools_handled: "handledTools two_tools_document = [''get_forecast'']"
  by code_simp

lemma two_tools_check:
  "checkProtocol (Some two_tools_document) = \<lparr>compliant = True, issues = []\<rparr>"
  by code_simp

text \<open>
  Claim C2 (the code departs from it).  The expression that extracts the declared names,
  \<^verbatim>\<open>/tools:\s*\[([\s\S]*?)\]/\<close>, ends its block at the first \<^verbatim>\<open>]\<close> after \<^verbatim>\<open>tools: [\<close>.  In an
  index of the generator's layout that is the \<^verbatim>\<open>required: []\<close> of the first tool, so only the
  first listed tool is taken as declared.  The document below lists \<^verbatim>\<open>get_forecast\<close> and
  \<^verbatim>\<open>get_alerts\<close> and has a case label for \<^verbatim>\<open>get_forecast\<close> only: the check extracts
  \<^verbatim>\<open>get_forecast\<close> alone, returns \<open>compliant = True\<close> and reports no issue, where the claim
  requires \<open>compliant = False\<close> and the entry \<^verbatim>\<open>Missing tool handler for 'get_alerts'\<close>.
\<close>

theorem listed_tool_not_declared:
  "exec_all re_tool_name 0 two_tools_document = [''get_forecast'', ''get_alerts''] \<and>
   definedTools two_tools_document = [''get_forecast''] \<and>
   handledTools two_tools_document = [''get_forecast''] \<and>
   missing_handler_issue ''get_alerts'' \<notin> set (issues (checkProtocol (Some two_tools_document))) \<and>
   checkProtocol (Some two_tools_document) = \<lparr>compliant = True, issues = []\<rparr>"
  by (simp add: two_tools_listed two_tools_defined two_tools_handled two_tools_check)

text \<open>
  Claim C3.  For every source document: a handled name that is not in the declared
  interface set and is not \<^verbatim>\<open>default\<close> contributes the issue
  \<^verbatim>\<open>Handler for undeclared tool '<name>'\<close> (once); no such issue is ever produced for
  the name \<^verbatim>\<open>default\<close>, nor for any other name; and the verdict \<open>compliant\<close> depends only
  on the two request-schema markers, on every declared name being handled and on the
  connection call, so an undeclared handler does not change it.
\<close>

theorem undeclared_handler_reported:
  "(\<forall>t. count_list (issues (checkProtocol (Some content))) (undeclared_issue t) =
      (if t \<in> set (handledTools content) \<and> t \<notin> set (definedTools content) \<and> t \<noteq> ''default''
       then 1 else 0)) \<and>
   undeclared_issue ''default'' \<notin> set (issues (checkProtocol (Some content))) \<and>
   compliant (checkProtocol (Some content)) =
     (str_includes content ''ListToolsRequestSchema'' \<and>
      str_includes content ''CallToolRequestSchema'' \<and>
      set (definedTools content) \<subseteq> set (handledTools content) \<and>
      (str_includes content ''server.connect'' \<or> str_includes content ''.run(''))"
proof -
  have "count_list (issues (checkProtocol (Some content))) (undeclared_issue ''default'') = 0"
    by (simp add: count_undeclared)
  then have "undeclared_issue ''default'' \<notin> set (issues (checkProtocol (Some content)))"
    by (simp add: count_list_0_iff)
  then show ?thesis
    using compliant_iff[of content] by (simp add: count_undeclared)
qed

theorem undeclared_handler_reported_witness:
  "count_list (issues (checkProtocol (Some scenario_D_document))) (undeclared_issue ''legacy_tool'') = 1 \<and>
   undeclared_issue ''default'' \<notin> set (issues (checkProtocol (Some scenario_D_document))) \<and>
   compliant (checkProtocol (Some scenario_D_document))"
proof -
  have l: "str_includes scenario_D_document ''ListToolsRequestSchema''" by code_simp
  have c: "str_includes scenario_D_document ''CallToolRequestSchema''" by code_simp
  have s: "str_includes scenario_D_document ''server.connect''" by code_simp
  from undeclared_handler_reported[of scenario_D_document] l c s show ?thesis
    by (simp add: scenario_D_defined scenario_D_handled del: str_includes.simps)
qed

section \<open>Properties of the registry and of its request handlers\<close>

lemma find_row_name:
  "find (\<lambda>r. row_name r = name) rs = None \<longleftrightarrow> name \<notin> row_name ` set rs"
  by (induction rs) auto

lemma length_filter_count: "length (filter (\<lambda>r. f r = y) rs) = count_list (map f rs) y"
  by (induction rs) auto

lemma count_name_distinct:
  "distinct (map row_name rs) \<Longrightarrow> name \<in> row_name ` set rs \<Longrightarrow>
   length (filter (\<lambda>r. row_name r = name) rs) = 1"
  by (simp add: length_filter_count count_list_distinct)

lemma register_opens:
  "db_open reg \<or> ie = None \<Longrightarrow>
   (if db_open reg then Inr reg else init ie reg) = Inr (reg\<lparr>db_open := True\<rparr>)"
  by (auto simp: init_def)

lemma same_name_same_row:
  assumes "distinct (map row_name rs)" and "a \<in> set rs" and "b \<in> set rs"
    and "row_name a = row_name b"
  shows "a = b"
  using assms by (simp add: distinct_map inj_on_def)

text \<open>
  Claim C8.  For every registry state that meets the constraints of the table (unique
  ids, unique non-empty names) and can be opened.  Registering a manifest whose name is in
  the table returns action \<^verbatim>\<open>updated\<close> with the id of the row that had this name and
  updates that row where it stands: its version, description, spec, package path, docker
  image, claude config and \<^verbatim>\<open>updated_at\<close> are those of the call, its id, name and
  \<^verbatim>\<open>created_at\<close> stay, every other row is as it was, and exactly one row has this name.
  Registering a non-empty name that is not in the table, with a generated id that is not
  in the table either, appends one row with the values of the call and returns action
  \<^verbatim>\<open>created\<close> with the new id.
\<close>

theorem register_upsert:
  assumes "table_ok reg" and "db_open reg \<or> ie = None" and "m_name m = Some name"
  shows "(name \<in> row_name ` set (rows reg) \<longrightarrow>
            (\<exists>reg' existing updated.
               existing \<in> set (rows reg) \<and> row_name existing = name \<and>
               updated = existing
                 \<lparr>row_version := (case m_version m of None \<Rightarrow> ''1.0.0'' | Some v \<Rightarrow> v),
                  row_description := (case m_description m of None \<Rightarrow> [] | Some d \<Rightarrow> d),
                  row_spec := m_spec m,
                  row_package_path := m_package_path m,
                  row_docker_image := m_docker_image m,
                  row_claude_config := m_claude_config m,
                  row_updated_at := t\<rparr> \<and>
               register ie nid t reg m =
                 Inr (reg',
                      \<lparr>reg_id = row_id existing, reg_name = name,
                       reg_version = (case m_version m of None \<Rightarrow> ''1.0.0'' | Some v \<Rightarrow> v),
                       action = ''updated''\<rparr>) \<and>
               db_open reg' \<and>
               rows reg' = map (\<lambda>r. if r = existing then updated else r) (rows reg) \<and>
               updated \<in> set (rows reg') \<and>
               row_id updated = row_id existing \<and> row_name updated = name \<and>
               row_created_at updated = row_created_at existing \<and>
               length (filter (\<lambda>r. row_name r = name) (rows reg')) = 1)) \<and>
         (name \<notin> row_name ` set (rows reg) \<and> name \<noteq> [] \<and> nid \<notin> row_id ` set (rows reg) \<longrightarrow>
            (\<exists>reg'.
               register ie nid t reg m =
                 Inr (reg',
                      \<lparr>reg_id = nid, reg_name = name,
                       reg_version = (case m_version m of None \<Rightarrow> ''1.0.0'' | Some v \<Rightarrow> v),
                       action = ''created''\<rparr>) \<and>
               db_open reg' \<and>
               rows reg' = rows reg @
                 [\<lparr>row_id = nid, row_name = name,
                   row_version = (case m_version m of None \<Rightarrow> ''1.0.0'' | Some v \<Rightarrow> v),
                   row_description = (case m_description m of None \<Rightarrow> [] | Some d \<Rightarrow> d),
                   row_spec = m_spec m,
                   row_package_path = m_package_path m,
                   row_docker_image = m_docker_image m,
                   row_claude_config = m_claude_config m,
                   row_created_at = t, row_updated_at = t\<rparr>] \<and>
               length (filter (\<lambda>r. row_name r = name) (rows reg')) = 1))"
proof (intro conjI impI)
  assume ex: "name \<in> row_name ` set (rows reg)"
  then obtain existing where f: "find (\<lambda>r. row_name r = name) (rows reg) = Some existing"
    using find_row_name[of name "rows reg"] by (cases "find (\<lambda>r. row_name r = name) (rows reg)") auto
  then have mem: "existing \<in> set (rows reg)" and nm: "row_name existing = name"
    by (auto simp: find_Some_iff)
  from ex assms(1) have ne: "name \<noteq> []"
    by (force simp: table_ok_def)
  have dn: "distinct (map row_name (rows reg))"
    using assms(1) by (simp add: table_ok_def)
  define V where "V = (case m_version m of None \<Rightarrow> ''1.0.0'' | Some v \<Rightarrow> v)"
  define D where "D = (case m_description m of None \<Rightarrow> [] | Some d \<Rightarrow> d)"
  define wr :: "'a server_row \<Rightarrow> 'a server_row" where
    "wr = (\<lambda>r. r\<lparr>row_version := V, row_description := D, row_spec := m_spec m,
                 row_package_path := m_package_path m, row_docker_image := m_docker_image m,
                 row_claude_config := m_claude_config m, row_updated_at := t\<rparr>)"
  define reg' where
    "reg' = reg\<lparr>db_open := True,
               rows := map (\<lambda>r. if row_name r = name then wr r else r) (rows reg)\<rparr>"
  have same: "map (\<lambda>r. if row_name r = name then wr r else r) (rows reg) =
              map (\<lambda>r. if r = existing then wr existing else r) (rows reg)"
  proof (rule map_cong[OF refl])
    fix r assume r: "r \<in> set (rows reg)"
    have "row_name r = name \<longleftrightarrow> r = existing"
      using same_name_same_row[OF dn r mem] nm by auto
    then show "(if row_name r = name then wr r else r) = (if r = existing then wr existing else r)"
      by auto
  qed
  have rows': "rows reg' = map (\<lambda>r. if r = existing then wr existing else r) (rows reg)"
    by (simp add: reg'_def same)
  have names: "map row_name (rows reg') = map row_name (rows reg)"
    by (simp add: reg'_def wr_def)
  have one: "length (filter (\<lambda>r. row_name r = name) (rows reg')) = 1"
  proof -
    have "distinct (map row_name (rows reg'))"
      using dn by (simp only: names)
    moreover have "name \<in> row_name ` set (rows reg')"
      using ex names by (metis list.set_map)
    ultimately show ?thesis by (rule count_name_distinct)
  qed
  have inn: "wr existing \<in> set (rows reg')"
    using mem by (auto simp: rows')
  have run: "register ie nid t reg m =
          Inr (reg', \<lparr>reg_id = row_id existing, reg_name = name, reg_version = V,
                      action = ''updated''\<rparr>)"
    unfolding register_def reg'_def wr_def V_def D_def
    using register_opens[OF assms(2)] assms(3) f ne
    by (simp add: Let_def)
  have op: "db_open reg'"
    by (simp add: reg'_def)
  have keep: "row_id (wr existing) = row_id existing" "row_name (wr existing) = name"
    "row_created_at (wr existing) = row_created_at existing"
    using nm by (simp_all add: wr_def)
  have "existing \<in> set (rows reg) \<and> row_name existing = name \<and>
        wr existing = existing
                 \<lparr>row_version := V, row_description := D, row_spec := m_spec m,
                  row_package_path := m_package_path m, row_docker_image := m_docker_image m,
                  row_claude_config := m_claude_config m, row_updated_at := t\<rparr> \<and>
        register ie nid t reg m =
          Inr (reg', \<lparr>reg_id = row_id existing, reg_name = name, reg_version = V,
                      action = ''updated''\<rparr>) \<and>
        db_open reg' \<and>
        rows reg' = map (\<lambda>r. if r = existing then wr existing else r) (rows reg) \<and>
        wr existing \<in> set (rows reg') \<and>
        row_id (wr existing) = row_id existing \<and> row_name (wr existing) = name \<and>
        row_created_at (wr existing) = row_created_at existing \<and>
        length (filter (\<lambda>r. row_name r = name) (rows reg')) = 1"
    using mem nm run op rows' inn keep one by (simp add: wr_def)
  then show "\<exists>reg' existing updated.
               existing \<in> set (rows reg) \<and> row_name existing = name \<and>
               updated = existing
                 \<lparr>row_version := (case m_version m of None \<Rightarrow> ''1.0.0'' | Some v \<Rightarrow> v),
                  row_description := (case m_description m of None \<Rightarrow> [] | Some d \<Rightarrow> d),
                  row_spec := m_spec m,
                  row_package_path := m_package_path m,
                  row_docker_image := m_docker_image m,
                  row_claude_config := m_claude_config m,
                  row_updated_at := t\<rparr> \<and>
               register ie nid t reg m =
                 Inr (reg',
                      \<lparr>reg_id = row_id existing, reg_name = name,
                       reg_version = (case m_version m of None \<Rightarrow> ''1.0.0'' | Some v \<Rightarrow> v),
                       action = ''updated''\<rparr>) \<and>
               db_open reg' \<and>
               rows reg' = map (\<lambda>r. if r = existing then updated else r) (rows reg) \<and>
               updated \<in> set (rows reg') \<and>
               row_id updated = row_id existing \<and> row_name updated = name \<and>
               row_created_at updated = row_created_at existing \<and>
               length (filter (\<lambda>r. row_name r = name) (rows reg')) = 1"
    unfolding V_def D_def by blast
next
  assume fresh: "name \<notin> row_name ` set (rows reg) \<and> name \<noteq> [] \<and> nid \<notin> row_id ` set (rows reg)"
  then have f: "find (\<lambda>r. row_name r = name) (rows reg) = None"
    by (simp add: find_row_name)
  from fresh have z: "filter (\<lambda>r. row_name r = name) (rows reg) = []"
    by (auto simp: filter_empty_conv)
  show "\<exists>reg'.
               register ie nid t reg m =
                 Inr (reg',
                      \<lparr>reg_id = nid, reg_name = name,
                       reg_version = (case m_version m of None \<Rightarrow> ''1.0.0'' | Some v \<Rightarrow> v),
                       action = ''created''\<rparr>) \<and>
               db_open reg' \<and>
               rows reg' = rows reg @
                 [\<lparr>row_id = nid, row_name = name,
                   row_version = (case m_version m of None \<Rightarrow> ''1.0.0'' | Some v \<Rightarrow> v),
                   row_description = (case m_description m of None \<Rightarrow> [] | Some d \<Rightarrow> d),
                   row_spec = m_spec m,
                   row_package_path = m_package_path m,
                   row_docker_image = m_docker_image m,
                   row_claude_config = m_claude_config m,
                   row_created_at = t, row_updated_at = t\<rparr>] \<and>
               length (filter (\<lambda>r. row_name r = name) (rows reg')) = 1"
    unfolding register_def using register_opens[OF assms(2)] assms(3) f fresh z
    by (simp add: Let_def)
qed

lemma weather_registry_ok: "table_ok weather_registry"
  by (simp add: table_ok_def weather_registry_def weather_row_def)

theorem register_upsert_witness:
  "table_ok weather_registry \<and> m_name weather_manifest = Some ''weather'' \<and>
   ''weather'' \<in> row_name ` set (rows weather_registry) \<and>
   register None ''mcp_1700000000500_zz91qp'' ''2026-02-02T00:00:00.000Z'' weather_registry
     weather_manifest =
     Inr (\<lparr>db_open = True,
           rows = [weather_row\<lparr>row_version := ''1.1.0'', row_description := [],
                     row_updated_at := ''2026-02-02T00:00:00.000Z''\<rparr>]\<rparr>,
          \<lparr>reg_id = ''mcp_1700000000000_k3x9ab'', reg_name = ''weather'',
           reg_version = ''1.1.0'', action = ''updated''\<rparr>) \<and>
   ''news'' \<notin> row_name ` set (rows weather_registry) \<and>
   register None ''mcp_1700000000500_zz91qp'' ''2026-02-02T00:00:00.000Z'' weather_registry
     news_manifest =
     Inr (\<lparr>db_open = True,
           rows = [weather_row,
                   \<lparr>row_id = ''mcp_1700000000500_zz91qp'', row_name = ''news'',
                    row_version = ''1.1.0'', row_description = [], row_spec = None,
                    row_package_path = None, row_docker_image = None,
                    row_claude_config = None,
                    row_created_at = ''2026-02-02T00:00:00.000Z'',
                    row_updated_at = ''2026-02-02T00:00:00.000Z''\<rparr>]\<rparr>,
          \<lparr>reg_id = ''mcp_1700000000500_zz91qp'', reg_name = ''news'',
           reg_version = ''1.1.0'', action = ''created''\<rparr>)"
proof -
  have o: "db_open weather_registry \<or> (None :: string option) = None"
    by simp
  have w: "m_name weather_manifest = Some ''weather''"
    by (simp add: weather_manifest_def)
  have n: "m_name news_manifest = Some ''news''"
    by (simp add: news_manifest_def)
  have inw: "''weather'' \<in> row_name ` set (rows weather_registry)"
    by (simp add: weather_registry_def weather_row_def)
  have fresh: "''news'' \<notin> row_name ` set (rows weather_registry) \<and> ''news'' \<noteq> [] \<and>
        ''mcp_1700000000500_zz91qp'' \<notin> row_id ` set (rows weather_registry)"
    by (simp add: weather_registry_def weather_row_def)
  have a: "register None ''mcp_1700000000500_zz91qp'' ''2026-02-02T00:00:00.000Z'' weather_registry
     weather_manifest =
     Inr (\<lparr>db_open = True,
           rows = [weather_row\<lparr>row_version := ''1.1.0'', row_description := [],
                     row_updated_at := ''2026-02-02T00:00:00.000Z''\<rparr>]\<rparr>,
          \<lparr>reg_id = ''mcp_1700000000000_k3x9ab'', reg_name = ''weather'',
           reg_version = ''1.1.0'', action = ''updated''\<rparr>)"
    using register_upsert[OF weather_registry_ok o w,
            where nid = "''mcp_1700000000500_zz91qp''" and t = "''2026-02-02T00:00:00.000Z''"] inw
    by (auto simp: weather_registry_def weather_row_def weather_manifest_def)
  have b: "register None ''mcp_1700000000500_zz91qp'' ''2026-02-02T00:00:00.000Z'' weather_registry
     news_manifest =
     Inr (\<lparr>db_open = True,
           rows = [weather_row,
                   \<lparr>row_id = ''mcp_1700000000500_zz91qp'', row_name = ''news'',
                    row_version = ''1.1.0'', row_description = [], row_spec = None,
                    row_package_path = None, row_docker_image = None,
                    row_claude_config = None,
                    row_created_at = ''2026-02-02T00:00:00.000Z'',
                    row_updated_at = ''2026-02-02T00:00:00.000Z''\<rparr>]\<rparr>,
          \<lparr>reg_id = ''mcp_1700000000500_zz91qp'', reg_name = ''news'',
           reg_version = ''1.1.0'', action = ''created''\<rparr>)"
    using register_upsert[OF weather_registry_ok o n,
            where nid = "''mcp_1700000000500_zz91qp''" and t = "''2026-02-02T00:00:00.000Z''"] fresh
    by (auto simp: weather_registry_def weather_row_def weather_manifest_def news_manifest_def)
  from weather_registry_ok w inw a fresh b show ?thesis
    by blast
qed

lemma ensureRegistry_initialized: "registryInitialized st \<Longrightarrow> ensureRegistry e st = Inr st"
  by (simp add: ensureRegistry_def)

lemma call_get: "call_with_name ''get'' reg name = Inr (reg, PromiseV (get reg name None))"
  by (simp add: call_with_name_def MCPRegistry_methods_def)

text \<open>
  Claim C10.  For every name, registered or not, the handler of
  \<^verbatim>\<open>GET /api/servers/:name\<close> never answers 404 and never sends a stored row: once the
  registry is initialised (or its initialisation succeeds) it answers 200 with the empty
  object, because the value it tests and sends is the promise of \<^verbatim>\<open>registry.get\<close>.
\<close>

theorem get_server_always_found:
  "http_status (snd (get_server e st name)) \<noteq> 404 \<and>
   (\<forall>row. body (snd (get_server e st name)) \<noteq> JsonBody (JRow row)) \<and>
   (\<forall>st'. ensureRegistry e st = Inr st' \<longrightarrow>
      get_server e st name = (st', \<lparr>http_status = 200, body = JsonBody JEmptyObject\<rparr>))"
  by (cases "ensureRegistry e st") (simp_all add: get_server_def call_get)

theorem get_server_always_found_witness:
  "get (registry weather_server) ''weather'' None = RowV weather_row \<and>
   get (registry weather_server) ''tides'' None = Null \<and>
   get_server (scenario_env (Inr None) (Inl [])) weather_server ''weather'' =
     (weather_server, \<lparr>http_status = 200, body = JsonBody JEmptyObject\<rparr>) \<and>
   get_server (scenario_env (Inr None) (Inl [])) weather_server ''tides'' =
     (weather_server, \<lparr>http_status = 200, body = JsonBody JEmptyObject\<rparr>)"
proof -
  let ?e = "scenario_env (Inr None) (Inl [])"
  have i: "ensureRegistry ?e weather_server = Inr weather_server"
    by (simp add: ensureRegistry_initialized weather_server_def)
  have g: "get (registry weather_server) ''weather'' None = RowV weather_row"
    "get (registry weather_server) ''tides'' None = Null"
    by (simp_all add: get_def falsy_def weather_server_def weather_registry_def weather_row_def)
  from get_server_always_found[of ?e weather_server "''weather''"]
       get_server_always_found[of ?e weather_server "''tides''"] i g
  show ?thesis by simp
qed

text \<open>
  Claim C9 (the code departs from it).  The handler of \<^verbatim>\<open>DELETE /api/servers/:name\<close> calls
  \<^verbatim>\<open>registry.unregister\<close>, which \<^verbatim>\<open>MCPRegistry\<close> does not define (its method is \<^verbatim>\<open>remove\<close>):
  for a registered name the call throws, the handler answers 500, and the row stays,
  although \<^verbatim>\<open>remove\<close> on the same registry would delete it.
\<close>

theorem delete_server_registered_fails:
  "delete_server (scenario_env (Inr None) (Inl [])) weather_server ''weather'' =
     (weather_server,
      \<lparr>http_status = 500, body = ErrorBody ''registry.unregister is not a function''\<rparr>) \<and>
   get (registry weather_server) ''weather'' None = RowV weather_row \<and>
   remove (registry weather_server) ''weather'' =
     (\<lparr>db_open = True, rows = []\<rparr>, RemovedV True)"
  by (simp add: delete_server_def ensureRegistry_def call_with_name_def MCPRegistry_methods_def
      get_def remove_def falsy_def weather_server_def weather_registry_def weather_row_def)

section \<open>Properties of the pipeline\<close>

lemma map_get_map_set: "map_get (map_set m k v) k = Some v"
  by (induction m) auto

lemma keys_map_set: "map_get m k \<noteq> None \<Longrightarrow> map fst (map_set m k v) = map fst m"
  by (induction m) (auto split: if_splits)

lemma map_get_None_iff: "map_get m k = None \<longleftrightarrow> k \<notin> set (map fst m)"
  by (induction m) (auto split: if_splits)

lemma begin_stage_explicit:
  "begin_stage jobId s p \<lparr>srv = st, job_obj = j, stages = ss\<rparr> =
     \<lparr>srv = st\<lparr>jobs := map_set (jobs st) jobId (j\<lparr>stage := s\<rparr>)\<rparr>,
      job_obj = j\<lparr>stage := s\<rparr>, stages = ss @ [p]\<rparr>"
  by (simp add: begin_stage_def Let_def)

lemma ensureRegistry_jobs:
  "ensureRegistry e (st\<lparr>jobs := js\<rparr>) =
     (case ensureRegistry e st of Inl m \<Rightarrow> Inl m | Inr st' \<Rightarrow> Inr (st'\<lparr>jobs := js\<rparr>))"
  by (simp add: ensureRegistry_def split: sum.splits)

text \<open>The record that \<^verbatim>\<open>processJob\<close> leaves, from the way the \<^verbatim>\<open>try\<close> block ends.\<close>

lemma processJob_thrown:
  assumes "map_get (jobs st) jobId = Some j"
    and "run_stages e jobId d r \<lparr>srv = st, job_obj = j, stages = []\<rparr> = (rs, Inl m)"
  shows "\<exists>st'. processJob e st jobId d r = Inr st' \<and>
           registry st' = registry (srv rs) \<and>
           registryInitialized st' = registryInitialized (srv rs) \<and>
           map_get (jobs st') jobId =
             Some \<lparr>status = ''failed'', stage = stage (job_obj rs),
                   created_at = created_at (job_obj rs), completed_at = None,
                   failed_at = Some (now e), result = None, errors = Some [m],
                   stages_completed = Some (stages rs)\<rparr>"
  using assms by (simp add: processJob_def map_get_map_set)

lemma processJob_returned:
  assumes "map_get (jobs st) jobId = Some j"
    and "run_stages e jobId d r \<lparr>srv = st, job_obj = j, stages = []\<rparr> = (rs, Inr res)"
  shows "\<exists>st'. processJob e st jobId d r = Inr st' \<and>
           registry st' = registry (srv rs) \<and>
           map_get (jobs st') jobId =
             Some \<lparr>status = ''complete'', stage = ''done'',
                   created_at = created_at (job_obj rs), completed_at = Some (now e),
                   failed_at = None, result = Some res, errors = None,
                   stages_completed = None\<rparr>"
  using assms by (simp add: processJob_def map_get_map_set)

lemma run_parse_failure:
  assumes "\<not> falsy (api_key e)"
    and "parse e d = Inl m \<or> parse e d = Inr None \<or>
         (\<exists>sp. parse e d = Inr (Some sp) \<and> falsy (spec_name sp))"
  shows "run_stages e jobId d r \<lparr>srv = st, job_obj = j, stages = []\<rparr> =
     (\<lparr>srv = st\<lparr>jobs := map_set (jobs st) jobId (j\<lparr>stage := ''parsing''\<rparr>)\<rparr>,
       job_obj = j\<lparr>stage := ''parsing''\<rparr>, stages = [''parse'']\<rparr>,
      Inl (case parse e d of Inl m \<Rightarrow> m | Inr s \<Rightarrow> ''Parser failed to generate valid spec''))"
  using assms unfolding run_stages_def
  by (auto simp: begin_stage_explicit Let_def)

lemma run_validation_critical:
  assumes "\<not> falsy (api_key e)"
    and "parse e d = Inr (Some sp)" and "\<not> falsy (spec_name sp)"
    and "generate e sp (''/opt/swarm-mcp-factory/output/'' @ or_default (spec_name sp) []) = Inr g"
    and "validate e (serverDir g) = Inr v"
    and "\<not> valid v" and "filter is_critical (v_errors v) \<noteq> []"
  shows "run_stages e jobId d r \<lparr>srv = st, job_obj = j, stages = []\<rparr> =
     (\<lparr>srv = st\<lparr>jobs := map_set (map_set (map_set (jobs st) jobId (j\<lparr>stage := ''parsing''\<rparr>))
                      jobId (j\<lparr>stage := ''generating''\<rparr>)) jobId (j\<lparr>stage := ''validating''\<rparr>)\<rparr>,
       job_obj = j\<lparr>stage := ''validating''\<rparr>, stages = [''parse'', ''generate'', ''validate'']\<rparr>,
      Inl (''Validation failed: '' @ js_join ''; '' (map to_string (filter is_critical (v_errors v)))))"
  using assms unfolding run_stages_def
  by (simp add: begin_stage_explicit Let_def)

lemma run_validation_tolerated:
  assumes "\<not> falsy (api_key e)"
    and "parse e d = Inr (Some sp)" and "\<not> falsy (spec_name sp)"
    and "generate e sp (''/opt/swarm-mcp-factory/output/'' @ or_default (spec_name sp) []) = Inr g"
    and "validate e (serverDir g) = Inr v"
    and "valid v \<or> filter is_critical (v_errors v) = []"
  shows "\<exists>rs out. run_stages e jobId d r \<lparr>srv = st, job_obj = j, stages = []\<rparr> = (rs, out) \<and>
           (stage (job_obj rs) = ''packaging'' \<or> stage (job_obj rs) = ''registering'') \<and>
           ''package'' \<in> set (stages rs)"
  using assms unfolding run_stages_def
  by (auto simp: begin_stage_explicit Let_def ensureRegistry_jobs split: sum.splits)

lemma run_all_stages:
  assumes "\<not> falsy (api_key e)"
    and "parse e d = Inr (Some sp)" and "\<not> falsy (spec_name sp)"
    and "generate e sp (''/opt/swarm-mcp-factory/output/'' @ or_default (spec_name sp) []) = Inr g"
    and "validate e (serverDir g) = Inr v"
    and "valid v \<or> filter is_critical (v_errors v) = []"
    and "package e (serverDir g) (case r of None \<Rightarrow> ''node'' | Some x \<Rightarrow> x) = Inr p"
    and "ensureRegistry e st = Inr st1"
    and "register (init_error e) (new_id e) (now_iso e) (registry st1) (job_manifest sp p) = Inr (reg, mres)"
  shows "\<exists>rs. run_stages e jobId d r \<lparr>srv = st, job_obj = j, stages = []\<rparr> =
           (rs, Inr \<lparr>r_name = or_default (spec_name sp) [], r_serverDir = serverDir g,
                     r_package_path = packagePath p,
                     r_description = or_default (spec_description sp) [],
                     r_spec = sp, r_manifest = mres,
                     r_stages_completed = [''parse'', ''generate'', ''validate'', ''package'', ''register'']\<rparr>) \<and>
           registry (srv rs) = reg \<and> created_at (job_obj rs) = created_at j"
  using assms unfolding run_stages_def
  by (auto simp: begin_stage_explicit Let_def ensureRegistry_jobs)

lemma run_stages_keeps_order:
  assumes "map_get (jobs st) jobId \<noteq> None"
  shows "map fst (jobs (srv (fst (run_stages e jobId d r \<lparr>srv = st, job_obj = j, stages = []\<rparr>)))) =
         map fst (jobs st)"
  using assms unfolding run_stages_def
  by (auto simp: begin_stage_explicit Let_def ensureRegistry_jobs keys_map_set map_get_map_set
      split: sum.splits option.splits)

text \<open>A run of \<^verbatim>\<open>processJob\<close> replaces the record of its job where it stands: the order of
  the store, which is the order in which the jobs were created, does not change.\<close>

lemma processJob_keeps_order:
  assumes "processJob e st jobId d r = Inr st'"
  shows "map fst (jobs st') = map fst (jobs st)"
proof -
  from assms obtain j where j: "map_get (jobs st) jobId = Some j"
    by (auto simp: processJob_def split: option.splits)
  then have k: "map_get (jobs st) jobId \<noteq> None" by simp
  obtain rs out where
    run: "run_stages e jobId d r \<lparr>srv = st, job_obj = j, stages = []\<rparr> = (rs, out)"
    by (cases "run_stages e jobId d r \<lparr>srv = st, job_obj = j, stages = []\<rparr>") blast
  have o: "map fst (jobs (srv rs)) = map fst (jobs st)"
    using run_stages_keeps_order[OF k, of e d r j] run by simp
  have p: "map_get (jobs (srv rs)) jobId \<noteq> None"
    using k by (simp add: map_get_None_iff o del: set_map)
  from assms j run o keys_map_set[OF p] show ?thesis
    by (cases out) (auto simp: processJob_def)
qed

subsection \<open>The scenarios\<close>

lemma submitted_job:
  "map_get (jobs submitted_server) job_1 =
     Some \<lparr>status = ''processing'', stage = ''queued'', created_at = 1700000001000,
           completed_at = None, failed_at = None, result = None, errors = None,
           stages_completed = None\<rparr>"
  by (simp add: submitted_server_def post_generate_def falsy_def weather_server_def)

lemma submitted_registry:
  "registry submitted_server = weather_registry \<and> registryInitialized submitted_server"
  by (simp add: submitted_server_def post_generate_def falsy_def weather_server_def)

lemma scenario_env_fields:
  "\<not> falsy (api_key (scenario_env p v))"
  "parse (scenario_env p v) d = p"
  "generate (scenario_env p v) sp dir =
     Inr \<lparr>serverDir = dir @ ''/mcp-'' @ or_default (spec_name sp) [],
          files = [''package.json'', ''src/index.ts'']\<rparr>"
  "validate (scenario_env p v) dir = v"
  "package (scenario_env p v) dir rt = Inr \<lparr>pkg_success = True, packagePath = None\<rparr>"
  "init_error (scenario_env p v) = None"
  "new_id (scenario_env p v) = ''mcp_1700000002000_q7w8e9''"
  "now (scenario_env p v) = 1700000003000"
  by (simp_all add: scenario_env_def falsy_def)

lemma forecast_name: "\<not> falsy (spec_name forecast_spec)"
  by (simp add: forecast_spec_def falsy_def)

lemma scenario_registration:
  "\<exists>reg mres.
     register (init_error (scenario_env p v)) (new_id (scenario_env p v)) (now_iso (scenario_env p v))
       (registry submitted_server) (job_manifest forecast_spec pk) = Inr (reg, mres)"
  by (simp add: submitted_registry scenario_env_fields register_def weather_registry_def
      weather_row_def job_manifest_def forecast_spec_def or_default_def Let_def)

lemma scenario_ensureRegistry: "ensureRegistry e submitted_server = Inr submitted_server"
  by (simp add: ensureRegistry_def submitted_registry)

text \<open>With the environment of the scenarios, a run whose validation does not throw ends
  complete.\<close>

lemma scenario_completes:
  assumes "valid v \<or> filter is_critical (v_errors v) = []"
  shows "\<exists>rec res.
           job_after (processJob (scenario_env (Inr (Some forecast_spec)) (Inr v)) submitted_server
                        job_1 ''weather lookup tool'' None) job_1 = Some rec \<and>
           status rec = ''complete'' \<and> stage rec = ''done'' \<and> result rec = Some res \<and>
           r_stages_completed res = [''parse'', ''generate'', ''validate'', ''package'', ''register'']"
proof -
  let ?e = "scenario_env (Inr (Some forecast_spec)) (Inr v)"
  obtain reg mres where
    reg: "register (init_error ?e) (new_id ?e) (now_iso ?e) (registry submitted_server)
            (job_manifest forecast_spec \<lparr>pkg_success = True, packagePath = None\<rparr>) = Inr (reg, mres)"
    using scenario_registration by blast
  obtain rs res where
    run: "run_stages ?e job_1 ''weather lookup tool'' None
            \<lparr>srv = submitted_server, job_obj = the (map_get (jobs submitted_server) job_1), stages = []\<rparr> =
          (rs, Inr res)"
    and st: "r_stages_completed res = [''parse'', ''generate'', ''validate'', ''package'', ''register'']"
    using run_all_stages[of ?e "''weather lookup tool''" forecast_spec _ v None _ submitted_server
            submitted_server reg mres job_1 "the (map_get (jobs submitted_server) job_1)",
            OF scenario_env_fields(1) scenario_env_fields(2) forecast_name scenario_env_fields(3)
               scenario_env_fields(4) assms scenario_env_fields(5) scenario_ensureRegistry reg]
    by auto
  from processJob_returned[OF _ run] submitted_job st show ?thesis
    by (auto simp: job_after_def)
qed


lemma scenario_C_check:
  "checkProtocol (Some scenario_C_document) =
     \<lparr>compliant = False, issues = [missing_handler_issue ''get_forecast'']\<rparr>"
  by code_simp

lemma scenario_C_report_value:
  "scenario_C_report =
     \<lparr>valid = False,
      v_errors = [VObject ''protocol'' None (Some (missing_handler_issue ''get_forecast''))],
      v_warnings = []\<rparr>"
  by (simp add: scenario_C_report_def MCPValidator_validate_def scenario_C_check)

lemma scenario_C_not_critical: "filter is_critical (v_errors scenario_C_report) = []"
  by (simp add: scenario_C_report_value is_critical_def error_msg_def or_default_def)

lemma typescript_critical:
  "filter is_critical (v_errors typescript_report) =
     [VObject ''typescript'' (Some ''TypeScript compilation failed'') None]"
  by (simp add: typescript_report_def is_critical_def error_msg_def or_default_def)

subsection \<open>The claims about the pipeline\<close>

text \<open>
  Claim C1, as the claim states it: a report whose only error is the protocol issue
  \<^verbatim>\<open>Missing tool handler for 'get_forecast'\<close> is not valid, and yet the job ends complete,
  after packaging and registration.
\<close>

theorem missing_handler_job_completes:
  "checkProtocol (Some scenario_C_document) =
     \<lparr>compliant = False, issues = [missing_handler_issue ''get_forecast'']\<rparr> \<and>
   valid scenario_C_report = False \<and>
   v_errors scenario_C_report =
     [VObject ''protocol'' None (Some (missing_handler_issue ''get_forecast''))] \<and>
   (\<exists>rec res.
      job_after (processJob (scenario_env (Inr (Some forecast_spec)) (Inr scenario_C_report))
                   submitted_server job_1 ''weather lookup tool'' None) job_1 = Some rec \<and>
      status rec = ''complete'' \<and> stage rec = ''done'' \<and> result rec = Some res \<and>
      r_stages_completed res = [''parse'', ''generate'', ''validate'', ''package'', ''register''])"
  using scenario_completes[of scenario_C_report] scenario_C_not_critical scenario_C_check
  by (simp add: scenario_C_report_value)

text \<open>
  Claim C1, amended.  For every job whose first two stages succeed and whose validation
  returns a report: when the report is not valid and one of its errors is critical (the
  text of the error, which is the entry itself when it is a string, else its non-empty
  \<^verbatim>\<open>message\<close>, else \<^verbatim>\<open>[object Object]\<close>, contains \<^verbatim>\<open>TypeScript\<close>, \<^verbatim>\<open>import\<close> or \<^verbatim>\<open>syntax\<close>),
  the job ends failed at stage \<^verbatim>\<open>validating\<close>, with \<^verbatim>\<open>failed_at\<close> stamped and the message
  \<^verbatim>\<open>Validation failed: ...\<close> recorded; packaging and registration do not run: their names
  are not among the stages of the record, and the registry is untouched.  When the report is
  valid or none of its errors is critical, the job goes on to packaging: it does not end
  at the validation stage.
\<close>

theorem critical_validation_fails_job:
  assumes "map_get (jobs st) jobId = Some j"
    and "\<not> falsy (api_key e)"
    and "parse e d = Inr (Some sp)" and "\<not> falsy (spec_name sp)"
    and "generate e sp (''/opt/swarm-mcp-factory/output/'' @ or_default (spec_name sp) []) = Inr g"
    and "validate e (serverDir g) = Inr v"
  shows "(\<not> valid v \<and> filter is_critical (v_errors v) \<noteq> [] \<longrightarrow>
            (\<exists>st' rec ss. processJob e st jobId d r = Inr st' \<and>
               registry st' = registry st \<and>
               map_get (jobs st') jobId = Some rec \<and>
               status rec = ''failed'' \<and> stage rec = ''validating'' \<and>
               failed_at rec = Some (now e) \<and> completed_at rec = None \<and> result rec = None \<and>
               errors rec = Some [''Validation failed: '' @
                                    js_join ''; '' (map to_string (filter is_critical (v_errors v)))] \<and>
               stages_completed rec = Some ss \<and>
               ''package'' \<notin> set ss \<and> ''register'' \<notin> set ss)) \<and>
         (valid v \<or> filter is_critical (v_errors v) = [] \<longrightarrow>
            (\<exists>rec. job_after (processJob e st jobId d r) jobId = Some rec \<and>
               (stage rec = ''packaging'' \<or> stage rec = ''registering'' \<or> stage rec = ''done'')))"
proof (intro conjI impI)
  assume c: "\<not> valid v \<and> filter is_critical (v_errors v) \<noteq> []"
  note run = run_validation_critical[OF assms(2-6), of jobId r st j]
  from c processJob_thrown[OF assms(1) run[OF conjunct1[OF c] conjunct2[OF c]]]
  show "\<exists>st' rec ss. processJob e st jobId d r = Inr st' \<and>
               registry st' = registry st \<and>
               map_get (jobs st') jobId = Some rec \<and>
               status rec = ''failed'' \<and> stage rec = ''validating'' \<and>
               failed_at rec = Some (now e) \<and> completed_at rec = None \<and> result rec = None \<and>
               errors rec = Some [''Validation failed: '' @
                                    js_join ''; '' (map to_string (filter is_critical (v_errors v)))] \<and>
               stages_completed rec = Some ss \<and>
               ''package'' \<notin> set ss \<and> ''register'' \<notin> set ss"
    by auto
next
  assume t: "valid v \<or> filter is_critical (v_errors v) = []"
  from run_validation_tolerated[OF assms(2-6) t, of jobId r st j]
  obtain rs out where
    run: "run_stages e jobId d r \<lparr>srv = st, job_obj = j, stages = []\<rparr> = (rs, out)"
    and stg: "stage (job_obj rs) = ''packaging'' \<or> stage (job_obj rs) = ''registering''"
    by blast
  show "\<exists>rec. job_after (processJob e st jobId d r) jobId = Some rec \<and>
               (stage rec = ''packaging'' \<or> stage rec = ''registering'' \<or> stage rec = ''done'')"
  proof (cases out)
    case (Inl m)
    with processJob_thrown[OF assms(1), of e d r rs m] run stg show ?thesis
      by (auto simp: job_after_def)
  next
    case (Inr res)
    with processJob_returned[OF assms(1), of e d r rs res] run show ?thesis
      by (auto simp: job_after_def)
  qed
qed

theorem critical_validation_fails_job_witness:
  "valid typescript_report = False \<and>
   filter is_critical (v_errors typescript_report) =
     [VObject ''typescript'' (Some ''TypeScript compilation failed'') None] \<and>
   (\<exists>st' rec. processJob (scenario_env (Inr (Some forecast_spec)) (Inr typescript_report))
             submitted_server job_1 ''weather lookup tool'' None = Inr st' \<and>
          registry st' = weather_registry \<and>
          map_get (jobs st') job_1 = Some rec \<and>
          status rec = ''failed'' \<and> stage rec = ''validating'' \<and>
          failed_at rec = Some 1700000003000 \<and>
          errors rec = Some [''Validation failed: [object Object]'']) \<and>
   filter is_critical (v_errors clean_report) = [] \<and>
   (\<exists>rec. job_after (processJob (scenario_env (Inr (Some forecast_spec)) (Inr clean_report))
                      submitted_server job_1 ''weather lookup tool'' None) job_1 = Some rec \<and>
          (stage rec = ''packaging'' \<or> stage rec = ''registering'' \<or> stage rec = ''done''))"
proof -
  have nv: "\<not> valid typescript_report \<and> filter is_critical (v_errors typescript_report) \<noteq> []"
    by (simp add: typescript_critical) (simp add: typescript_report_def)
  have cl: "valid clean_report \<or> filter is_critical (v_errors clean_report) = []"
    by (simp add: clean_report_def)
  have a: "\<exists>st' rec. processJob (scenario_env (Inr (Some forecast_spec)) (Inr typescript_report))
             submitted_server job_1 ''weather lookup tool'' None = Inr st' \<and>
          registry st' = weather_registry \<and>
          map_get (jobs st') job_1 = Some rec \<and>
          status rec = ''failed'' \<and> stage rec = ''validating'' \<and>
          failed_at rec = Some 1700000003000 \<and>
          errors rec = Some [''Validation failed: [object Object]'']"
    using critical_validation_fails_job[where e = "scenario_env (Inr (Some forecast_spec)) (Inr typescript_report)"
            and d = "''weather lookup tool''" and r = None and sp = forecast_spec
            and v = typescript_report,
            OF submitted_job scenario_env_fields(1) scenario_env_fields(2) forecast_name
               scenario_env_fields(3) scenario_env_fields(4)] nv
    by (auto simp: typescript_critical to_string_def submitted_registry scenario_env_fields)
  have b: "\<exists>rec. job_after (processJob (scenario_env (Inr (Some forecast_spec)) (Inr clean_report))
                      submitted_server job_1 ''weather lookup tool'' None) job_1 = Some rec \<and>
          (stage rec = ''packaging'' \<or> stage rec = ''registering'' \<or> stage rec = ''done'')"
    using critical_validation_fails_job[where e = "scenario_env (Inr (Some forecast_spec)) (Inr clean_report)"
            and d = "''weather lookup tool''" and r = None and sp = forecast_spec
            and v = clean_report,
            OF submitted_job scenario_env_fields(1) scenario_env_fields(2) forecast_name
               scenario_env_fields(3) scenario_env_fields(4)] cl
    by blast
  from a b nv show ?thesis
    by (simp add: typescript_critical) (simp add: clean_report_def typescript_report_def)
qed

text \<open>
  Claim C4.  For every job in the store, \<^verbatim>\<open>processJob\<close> ends and leaves a terminal record:
  its status is \<^verbatim>\<open>complete\<close> or \<^verbatim>\<open>failed\<close>; a complete record has a result and
  \<^verbatim>\<open>completed_at\<close>, and neither errors nor \<^verbatim>\<open>failed_at\<close>; a failed record has a non-empty
  list of errors and \<^verbatim>\<open>failed_at\<close>, and neither a result nor \<^verbatim>\<open>completed_at\<close>.
\<close>

theorem terminal_record_exclusive:
  assumes "map_get (jobs st) jobId = Some j"
  shows "\<exists>rec. job_after (processJob e st jobId d r) jobId = Some rec \<and>
           (status rec = ''complete'' \<or> status rec = ''failed'') \<and>
           (status rec = ''complete'' \<longrightarrow>
              result rec \<noteq> None \<and> completed_at rec \<noteq> None \<and>
              errors rec = None \<and> failed_at rec = None) \<and>
           (status rec = ''failed'' \<longrightarrow>
              (\<exists>es. errors rec = Some es \<and> es \<noteq> []) \<and> failed_at rec \<noteq> None \<and>
              result rec = None \<and> completed_at rec = None)"
proof -
  obtain rs out where
    run: "run_stages e jobId d r \<lparr>srv = st, job_obj = j, stages = []\<rparr> = (rs, out)"
    by (cases "run_stages e jobId d r \<lparr>srv = st, job_obj = j, stages = []\<rparr>") blast
  show ?thesis
  proof (cases out)
    case (Inl m)
    with processJob_thrown[OF assms, of e d r rs m] run show ?thesis
      by (auto simp: job_after_def)
  next
    case (Inr res)
    with processJob_returned[OF assms, of e d r rs res] run show ?thesis
      by (auto simp: job_after_def)
  qed
qed

theorem terminal_record_exclusive_witness:
  "map_get (jobs submitted_server) job_1 \<noteq> None \<and>
   (\<exists>rec. job_after (processJob (scenario_env (Inr (Some forecast_spec)) (Inr typescript_report))
                      submitted_server job_1 ''weather lookup tool'' None) job_1 = Some rec \<and>
          (status rec = ''complete'' \<and> result rec \<noteq> None \<and> completed_at rec \<noteq> None \<and>
             errors rec = None \<and> failed_at rec = None \<or>
           status rec = ''failed'' \<and> (\<exists>es. errors rec = Some es \<and> es \<noteq> []) \<and>
             failed_at rec \<noteq> None \<and> result rec = None \<and> completed_at rec = None))"
  using terminal_record_exclusive[OF submitted_job,
          of "scenario_env (Inr (Some forecast_spec)) (Inr typescript_report)"
             "''weather lookup tool''" None]
        submitted_job
  by auto

lemma nameless_rejected:
  "parser_of (JsonObject nameless_object) =
     Inl ''Spec validation failed: Missing required field: name''"
  by (simp add: parser_of_def MCPParser_parse_def MCPParser_validate_def nameless_object_def
      falsy_def or_default_def tool_errors_def name_format_def is_lower_def is_digit_def Let_def
      enumerate_eq_zip)

text \<open>What \<^verbatim>\<open>MCPParser.parse\<close> resolves to, with its validation on, has a name: the test of
  \<^verbatim>\<open>processJob\<close> for a missing name does not fire on it.\<close>

lemma parser_result_named:
  assumes "parser_of reply = Inr x"
  shows "\<exists>sp. x = Some sp \<and> \<not> falsy (spec_name sp)"
  using assms
  by (auto simp: parser_of_def MCPParser_parse_def MCPParser_validate_def Let_def
      split: llm_reply.splits if_splits)

text \<open>The list of stages of a job that failed while parsing holds \<^verbatim>\<open>parse\<close>: the name is
  pushed when the stage begins.\<close>

lemma parse_failure_stages:
  assumes "map_get (jobs st) jobId = Some j"
    and "\<not> falsy (api_key e)"
    and "parse e d = Inl m \<or> parse e d = Inr None \<or>
         (\<exists>sp. parse e d = Inr (Some sp) \<and> falsy (spec_name sp))"
  shows "job_after (processJob e st jobId d r) jobId =
           Some \<lparr>status = ''failed'', stage = ''parsing'', created_at = created_at j,
                 completed_at = None, failed_at = Some (now e), result = None,
                 errors = Some [case parse e d of Inl m \<Rightarrow> m
                                | Inr s \<Rightarrow> ''Parser failed to generate valid spec''],
                 stages_completed = Some [''parse'']\<rparr>"
  using processJob_thrown[OF assms(1) run_parse_failure[OF assms(2) assms(3), of jobId r st j]]
  by (auto simp: job_after_def)

text \<open>
  Claim C5, as the claim states it: when the language model yields an object without a
  name, \<^verbatim>\<open>MCPParser.parse\<close> rejects it, the job fails at the first stage, and the message
  recorded is the parser's, which does not mention \<^verbatim>\<open>valid spec\<close>; the list of completed
  stages of the record is not empty either.
\<close>

theorem nameless_object_message:
  "falsy (spec_name nameless_object) \<and>
   job_after (processJob (scenario_env (parser_of (JsonObject nameless_object)) (Inr clean_report))
                submitted_server job_1 ''weather lookup tool'' None) job_1 =
     Some \<lparr>status = ''failed'', stage = ''parsing'', created_at = 1700000001000,
           completed_at = None, failed_at = Some 1700000003000, result = None,
           errors = Some [''Spec validation failed: Missing required field: name''],
           stages_completed = Some [''parse'']\<rparr> \<and>
   str_includes ''Spec validation failed: Missing required field: name'' ''valid spec'' = False"
proof -
  let ?e = "scenario_env (parser_of (JsonObject nameless_object)) (Inr clean_report)"
  have p: "parse ?e ''weather lookup tool'' =
             Inl ''Spec validation failed: Missing required field: name'' \<or>
           parse ?e ''weather lookup tool'' = Inr None \<or>
           (\<exists>sp. parse ?e ''weather lookup tool'' = Inr (Some sp) \<and> falsy (spec_name sp))"
    by (simp add: scenario_env_fields nameless_rejected)
  have n: "str_includes ''Spec validation failed: Missing required field: name'' ''valid spec'' = False"
    by simp
  from parse_failure_stages[OF submitted_job scenario_env_fields(1) p, of None] n
  show ?thesis
    by (simp add: scenario_env_fields nameless_rejected) (simp add: nameless_object_def falsy_def)
qed

text \<open>
  Claim C5, amended.  For every job whose parse stage fails (the parser rejects, or
  yields \<^verbatim>\<open>null\<close>, or yields an object without a name), the terminal record has status
  \<^verbatim>\<open>failed\<close> and stage \<^verbatim>\<open>parsing\<close>, with \<^verbatim>\<open>failed_at\<close> stamped and no result; its error is the
  message the parser rejected with, and it is \<^verbatim>\<open>Parser failed to generate valid spec\<close>
  when the parser yielded \<^verbatim>\<open>null\<close> or an object without a name.
\<close>

theorem parse_failure_record:
  assumes "map_get (jobs st) jobId = Some j"
    and "\<not> falsy (api_key e)"
    and "parse e d = Inl m \<or> parse e d = Inr None \<or>
         (\<exists>sp. parse e d = Inr (Some sp) \<and> falsy (spec_name sp))"
  shows "\<exists>rec. job_after (processJob e st jobId d r) jobId = Some rec \<and>
           status rec = ''failed'' \<and> stage rec = ''parsing'' \<and>
           failed_at rec = Some (now e) \<and> completed_at rec = None \<and> result rec = None \<and>
           errors rec = Some [case parse e d of Inl m \<Rightarrow> m
                              | Inr s \<Rightarrow> ''Parser failed to generate valid spec'']"
  using parse_failure_stages[OF assms, of r] by simp

theorem parse_failure_record_witness:
  "falsy (spec_name (forecast_spec\<lparr>spec_name := Some []\<rparr>)) \<and>
   (\<exists>rec. job_after (processJob (scenario_env (Inr (Some (forecast_spec\<lparr>spec_name := Some []\<rparr>)))
                                   (Inr clean_report))
                      submitted_server job_1 ''weather lookup tool'' None) job_1 = Some rec \<and>
          status rec = ''failed'' \<and> stage rec = ''parsing'' \<and>
          failed_at rec = Some 1700000003000 \<and>
          errors rec = Some [''Parser failed to generate valid spec'']) \<and>
   (\<exists>rec. job_after (processJob (scenario_env (Inl ''Request timed out.'') (Inr clean_report))
                      submitted_server job_1 ''weather lookup tool'' None) job_1 = Some rec \<and>
          status rec = ''failed'' \<and> stage rec = ''parsing'' \<and>
          failed_at rec = Some 1700000003000 \<and>
          errors rec = Some [''Request timed out.''])"
proof -
  let ?e1 = "scenario_env (Inr (Some (forecast_spec\<lparr>spec_name := Some []\<rparr>))) (Inr clean_report)"
  let ?e2 = "scenario_env (Inl ''Request timed out.'') (Inr clean_report)"
  have f: "falsy (spec_name (forecast_spec\<lparr>spec_name := Some []\<rparr>))"
    by (simp add: falsy_def)
  have p1: "parse ?e1 ''weather lookup tool'' = Inl [] \<or> parse ?e1 ''weather lookup tool'' = Inr None \<or>
        (\<exists>sp. parse ?e1 ''weather lookup tool'' = Inr (Some sp) \<and> falsy (spec_name sp))"
    by (simp add: scenario_env_fields falsy_def)
  have p2: "parse ?e2 ''weather lookup tool'' = Inl ''Request timed out.'' \<or>
        parse ?e2 ''weather lookup tool'' = Inr None \<or>
        (\<exists>sp. parse ?e2 ''weather lookup tool'' = Inr (Some sp) \<and> falsy (spec_name sp))"
    by (simp add: scenario_env_fields)
  from parse_failure_record[OF submitted_job scenario_env_fields(1) p1, of None]
       parse_failure_record[OF submitted_job scenario_env_fields(1) p2, of None] f
  show ?thesis
    by (auto simp: scenario_env_fields)
qed

text \<open>
  Claim C6.  For every job in which all five stages succeed (the key is set; the parser
  yields a named specification; the generator, the validator and the packager resolve,
  and the report is valid or has no critical error; the registry initialises and accepts
  the registration), the terminal record has status \<^verbatim>\<open>complete\<close> and stage \<^verbatim>\<open>done\<close>, and
  the stages of its result are the five stages in their order.  The code's name for the
  interpret stage is \<^verbatim>\<open>parse\<close>.
\<close>

theorem all_stages_succeed:
  assumes "map_get (jobs st) jobId = Some j"
    and "\<not> falsy (api_key e)"
    and "parse e d = Inr (Some sp)" and "\<not> falsy (spec_name sp)"
    and "generate e sp (''/opt/swarm-mcp-factory/output/'' @ or_default (spec_name sp) []) = Inr g"
    and "validate e (serverDir g) = Inr v"
    and "valid v \<or> filter is_critical (v_errors v) = []"
    and "package e (serverDir g) (case r of None \<Rightarrow> ''node'' | Some x \<Rightarrow> x) = Inr p"
    and "ensureRegistry e st = Inr st1"
    and "register (init_error e) (new_id e) (now_iso e) (registry st1) (job_manifest sp p) = Inr (reg, mres)"
  shows "\<exists>res. job_after (processJob e st jobId d r) jobId =
           Some \<lparr>status = ''complete'', stage = ''done'', created_at = created_at j,
                 completed_at = Some (now e), failed_at = None, result = Some res,
                 errors = None, stages_completed = None\<rparr> \<and>
           r_stages_completed res = [''parse'', ''generate'', ''validate'', ''package'', ''register'']"
proof -
  from run_all_stages[OF assms(2-10), of jobId j]
  obtain rs res where
    run: "run_stages e jobId d r \<lparr>srv = st, job_obj = j, stages = []\<rparr> = (rs, Inr res)"
    and st: "r_stages_completed res = [''parse'', ''generate'', ''validate'', ''package'', ''register'']"
    and cr: "created_at (job_obj rs) = created_at j"
    by auto
  from processJob_returned[OF assms(1) run] st cr show ?thesis
    by (auto simp: job_after_def)
qed

theorem all_stages_succeed_witness:
  "\<exists>res. job_after (processJob (scenario_env (Inr (Some forecast_spec)) (Inr clean_report))
                     submitted_server job_1 ''weather lookup tool'' None) job_1 =
           Some \<lparr>status = ''complete'', stage = ''done'', created_at = 1700000001000,
                 completed_at = Some 1700000003000, failed_at = None, result = Some res,
                 errors = None, stages_completed = None\<rparr> \<and>
         r_stages_completed res = [''parse'', ''generate'', ''validate'', ''package'', ''register'']"
proof -
  let ?e = "scenario_env (Inr (Some forecast_spec)) (Inr clean_report)"
  obtain reg mres where
    reg: "register (init_error ?e) (new_id ?e) (now_iso ?e) (registry submitted_server)
            (job_manifest forecast_spec \<lparr>pkg_success = True, packagePath = None\<rparr>) = Inr (reg, mres)"
    using scenario_registration by blast
  have cl: "valid clean_report \<or> filter is_critical (v_errors clean_report) = []"
    by (simp add: clean_report_def)
  from all_stages_succeed[where e = ?e and d = "''weather lookup tool''" and r = None
         and sp = forecast_spec and v = clean_report,
         OF submitted_job scenario_env_fields(1) scenario_env_fields(2) forecast_name
            scenario_env_fields(3) scenario_env_fields(4) cl scenario_env_fields(5)
            scenario_ensureRegistry reg]
  show ?thesis
    by (simp add: scenario_env_fields)
qed

section \<open>Properties of the job listing\<close>

lemma js_slice_last: "0 < n \<Longrightarrow> js_slice_from (- n) xs = drop (length xs - nat n) xs"
  by (auto simp: js_slice_from_def Let_def max_def nat_diff_distrib intro: arg_cong2[where f = drop])

lemma listed_ids_slice:
  "listed_ids (list_jobs parsed st) =
     map fst (js_slice_from (- (case parsed of None \<Rightarrow> 50 | Some n \<Rightarrow> if n = 0 then 50 else n)) (jobs st))"
  by (simp add: listed_ids_def list_jobs_def Let_def case_prod_unfold comp_def)

lemma two_jobs_ids: "map fst (jobs two_jobs_server) = [job_1, job_2]"
  by (simp add: two_jobs_server_def submitted_server_def post_generate_def falsy_def
      weather_server_def job_1_def job_2_def)

lemma two_jobs_length: "length (jobs two_jobs_server) = 2"
  using arg_cong[OF two_jobs_ids, of length] by simp

text \<open>
  Claim C7, as the claim states it: with two jobs in the store and the limit 2, the job
  created first is listed first, so the list is not most-recent-first; and with the
  limit 0 two records are returned.
\<close>

theorem list_jobs_oldest_first:
  "map fst (jobs two_jobs_server) = [job_1, job_2] \<and>
   listed_ids (list_jobs (Some 2) two_jobs_server) = [job_1, job_2] \<and>
   listed_ids (list_jobs (Some 2) two_jobs_server) \<noteq> take 2 (rev (map fst (jobs two_jobs_server))) \<and>
   length (listed_ids (list_jobs (Some 0) two_jobs_server)) = 2"
  by (simp add: listed_ids_slice js_slice_last two_jobs_ids two_jobs_length drop_map[symmetric]
      job_1_def job_2_def)

text \<open>
  Claim C7, amended.  For every job store and every limit \<open>N \<ge> 1\<close>, the listing returns
  at most \<open>N\<close> records, the \<open>N\<close> most recently created, in the order of their creation
  (the oldest of them first); a limit of 0 or one that is not a number lists as the limit
  50 does.
\<close>

theorem list_jobs_recent:
  assumes "0 < N"
  shows "listed_ids (list_jobs (Some N) st) = rev (take (nat N) (rev (map fst (jobs st)))) \<and>
         length (listed_ids (list_jobs (Some N) st)) \<le> nat N \<and>
         list_jobs (Some 0) st = list_jobs (Some 50) st \<and>
         list_jobs None st = list_jobs (Some 50) st"
proof -
  have "listed_ids (list_jobs (Some N) st) = drop (length (jobs st) - nat N) (map fst (jobs st))"
    using assms by (simp add: listed_ids_slice js_slice_last drop_map)
  then have a: "listed_ids (list_jobs (Some N) st) = rev (take (nat N) (rev (map fst (jobs st))))"
    by (simp add: rev_take)
  then have "length (listed_ids (list_jobs (Some N) st)) \<le> nat N"
    by simp
  with a show ?thesis
    by (simp add: list_jobs_def)
qed

theorem list_jobs_recent_witness:
  "(0::int) < 1 \<and> listed_ids (list_jobs (Some 1) two_jobs_server) = [job_2] \<and>
   length (listed_ids (list_jobs (Some 1) two_jobs_server)) \<le> 1"
  using list_jobs_recent[of 1 two_jobs_server]
  by (simp add: two_jobs_ids)

end
